theory Spec2Isabelle
  imports Complex_Main "HOL-Library.Option_ord" "HOL-Library.Sublist"
begin

section \<open>Vendor sales summary: an embedding of get_vendor_summary.py\<close>

text \<open>
  The script reads three base tables of an SQLite store (vendor_invoice, purchases,
  sales) and an optional price table (product_prices), runs one aggregation query,
  post-processes the result as a pandas DataFrame and writes it back as the table
  vendor_sales_summary.

  Modelling decisions, valid for the whole theory:
  \<^item> the totals that the query adds up, and the metrics computed from them, are exact
    rationals or missing: a cell of such a column is a \<open>rat option\<close>, where
    \<open>None\<close> is the missing value (SQL NULL, pandas NaN). The machine arithmetic of
    these columns (the wrap-around of int64, the rounding and the overflow of float64,
    infinite totals) is not modelled, and no property below rests on the value of a sum,
    a difference or a quotient;
  \<^item> a string is the list of the bytes of its UTF-8 encoding; strings are compared
    exactly, as Python's \<open>in\<close> and \<open>==\<close> do;
  \<^item> the tables have the columns the query names; purchases may have further columns,
    none of them called ActualPrice or Volume. Values are compared as they are stored:
    the conversions that a column's declared type can make SQLite apply before a
    comparison are not modelled;
  \<^item> the logger and the report printed at the end of the script are left out: no
    function of the script reads them back.
\<close>

subsection \<open>detect_product_column\<close>

text \<open>
  The \<open>for\<close> loop over the literal candidate list, returning at the first candidate
  that is a member of \<open>columns\<close>; \<open>None\<close> after the loop.
\<close>

fun first_present :: "string list \<Rightarrow> string list \<Rightarrow> string option" where
  "first_present [] columns = None"
| "first_present (candidate # rest) columns =
     (if candidate \<in> set columns then Some candidate else first_present rest columns)"

definition candidates :: "string list" where
  "candidates = [''ProductID'', ''ItemID'', ''SKU'', ''ProductCode'']"

definition detect_product_column :: "string list \<Rightarrow> string option" where
  "detect_product_column columns = first_present candidates columns"

subsection \<open>The store connection\<close>

text \<open>
  An SQL value is NULL, a number, one of the two infinities that a REAL can hold, or a
  text (SQLite's INTEGER and REAL storage classes are both exact numbers here, so that 2
  and 2.0 are equal as they are in SQLite; BLOBs are left out).
\<close>

datatype cell = Null | Num rat | PosInf | NegInf | Text string

text \<open>
  The rows of the four tables the query reads. The columns follow the query text:
  a column the query adds up is a number or NULL; VendorName and Description are text
  or NULL; every other column may hold any SQL value. \<open>Other p c\<close> is the value
  of a purchases row under any further column \<open>c\<close>, such as a product identifier.
\<close>

record vendor_invoice_row =
  VendorNumber :: cell
  Freight :: "rat option"

record purchases_row =
  VendorNumber :: cell
  VendorName :: "string option"
  Brand :: cell
  Description :: "string option"
  PurchasePrice :: cell
  Quantity :: "rat option"
  Dollars :: "rat option"
  Other :: "string \<Rightarrow> cell"

record sales_row =
  VendorNo :: cell
  Brand :: cell
  SalesQuantity :: "rat option"
  SalesDollars :: "rat option"

record product_prices_row =
  ProductID :: cell
  Brand :: cell
  Price :: cell
  Volume :: cell

text \<open>
  A cell of an object column of a DataFrame that holds names: \<open>None\<close>, a Python
  \<open>int\<close> (the 0 that \<open>fillna(0)\<close> writes) or a \<open>str\<close>.
\<close>

datatype obj = PyNone | PyInt int | PyStr string

text \<open>
  A row of the DataFrame that \<open>pd.read_sql_query\<close> builds from the query: the nine
  columns of \<open>ps.*\<close>, then the two sales totals and the freight cost.
\<close>

record purchase_summary_row =
  VendorNumber :: cell
  VendorName :: obj
  Brand :: cell
  Description :: obj
  PurchasePrice :: cell
  ActualPrice :: cell
  Volume :: cell
  TotalPurchaseQuantity :: "rat option"
  TotalPurchaseDollars :: "rat option"

record summary_row = purchase_summary_row +
  TotalSalesQuantity :: "rat option"
  TotalSalesDollars :: "rat option"
  FreightCost :: "rat option"

text \<open>The four columns that \<open>clean_data\<close> adds, one entry per row.\<close>

record metrics_row =
  GrossProfit :: "rat option"
  ProfitMargin :: "rat option"
  StockTurnover :: "rat option"
  SalesToPurchaseRatio :: "rat option"

text \<open>
  A DataFrame: the rows of the twelve query columns and, once they have been assigned,
  the four metric columns (\<open>None\<close>: the frame has no such columns).
\<close>

record dataframe =
  rows :: "summary_row list"
  metrics :: "metrics_row list option"

text \<open>
  The connection. \<open>existing_tables\<close> is the set of names that
  \<open>SELECT name FROM sqlite_master WHERE type='table'\<close> returns,
  \<open>committed_tables\<close> the names that a commit has made durable,
  \<open>table_info\<close> the column names that \<open>PRAGMA table_info\<close> lists for a table
  name, \<open>stored_frames\<close> the tables that \<open>to_sql\<close> has written. The other
  fields are the contents of the four tables the query reads.
\<close>

record conn =
  existing_tables :: "string set"
  committed_tables :: "string set"
  table_info :: "string \<Rightarrow> string list"
  vendor_invoice :: "vendor_invoice_row list"
  purchases :: "purchases_row list"
  sales :: "sales_row list"
  product_prices :: "product_prices_row list"
  stored_frames :: "string \<rightharpoonup> dataframe"

definition table_columns :: "conn \<Rightarrow> string \<Rightarrow> string list" where
  "table_columns c table_name = table_info c table_name"

definition commit :: "conn \<Rightarrow> conn" where
  "commit c = c\<lparr>committed_tables := existing_tables c\<rparr>"

subsection \<open>verify_and_create_tables\<close>

text \<open>
  A raised exception: the name of its class and its message. The script raises Python's
  built-in \<open>Exception\<close> and defines no exception class of its own.
\<close>

datatype error = Raise string string

text \<open>Python's \<open>sep.join(xs)\<close>.\<close>

fun join :: "string \<Rightarrow> string list \<Rightarrow> string" where
  "join sep [] = []"
| "join sep [x] = x"
| "join sep (x # y # ys) = x @ sep @ join sep (y # ys)"

definition required_tables :: "string list" where
  "required_tables = [''vendor_invoice'', ''purchases'', ''sales'', ''product_prices'']"

text \<open>
  SQLite compares the names of tables without regard to the case of the 26 letters of
  ASCII: \<open>Product_Prices\<close> and \<open>product_prices\<close> name the same table.
\<close>

definition ascii_lower :: "char \<Rightarrow> char" where
  "ascii_lower ch =
     (case map_of (zip ''ABCDEFGHIJKLMNOPQRSTUVWXYZ'' ''abcdefghijklmnopqrstuvwxyz'') ch of
        None \<Rightarrow> ch | Some l \<Rightarrow> l)"

definition same_name :: "string \<Rightarrow> string \<Rightarrow> bool" where
  "same_name a b = (map ascii_lower a = map ascii_lower b)"

definition has_table :: "conn \<Rightarrow> string \<Rightarrow> bool" where
  "has_table c name = (\<exists>t \<in> existing_tables c. same_name t name)"

text \<open>
  \<open>CREATE TABLE IF NOT EXISTS product_prices (ProductID INT PRIMARY KEY, Brand INT,
  Price DECIMAL(10,2), Volume DECIMAL(10,2))\<close>: nothing happens when the store has a
  table of that name, in SQLite's comparison of names; otherwise the catalog gets the
  name and the four columns, and the table is empty (views and indexes are not
  modelled). The field \<open>product_prices\<close> of
  the connection holds the rows of the table of that name, however its name is spelt.
\<close>

definition create_product_prices :: "conn \<Rightarrow> conn" where
  "create_product_prices c =
     (if has_table c ''product_prices'' then c
      else c\<lparr>existing_tables := insert ''product_prices'' (existing_tables c),
             table_info := (table_info c)
               (''product_prices'' := [''ProductID'', ''Brand'', ''Price'', ''Volume'']),
             product_prices := []\<rparr>)"

text \<open>
  The function returns the connection as it leaves it, together with the outcome:
  \<open>Inl\<close> the exception raised, \<open>Inr ()\<close> a normal return. The list
  \<open>missing\<close> is built in the order of \<open>required_tables\<close>; \<open>missing.remove\<close> is
  \<open>remove1\<close>, and \<open>if missing\<close> is the test for a non-empty list.
\<close>

definition verify_and_create_tables :: "conn \<Rightarrow> conn \<times> (error + unit)" where
  "verify_and_create_tables c =
     (let existing = existing_tables c;
          missing = filter (\<lambda>t. t \<notin> existing) required_tables;
          (c, missing) =
             (if ''product_prices'' \<in> set missing
              then (commit (create_product_prices c), remove1 ''product_prices'' missing)
              else (c, missing))
      in if missing \<noteq> []
         then (c, Inl (Raise ''Exception''
                         (''Missing required tables: '' @ join '', '' missing)))
         else (c, Inr ()))"

subsection \<open>The summary query\<close>

text \<open>
  The building blocks of the query, as SQLite evaluates them.

  \<open>a = b\<close> in an \<open>ON\<close> clause holds only between two values that are not NULL.
  \<open>SUM\<close> skips NULLs and is NULL when it has added nothing. \<open>GROUP BY\<close> puts
  rows with the same key in one group, and two NULLs are the same key; SQLite leaves the
  order of the groups open, here it is the order of \<open>remdups\<close>. A \<open>LEFT JOIN\<close>
  keeps every row of its left side: with each matching row of the right side, or once,
  with none, when nothing matches.
\<close>

definition sql_eq :: "cell \<Rightarrow> cell \<Rightarrow> bool" where
  "sql_eq a b = (a \<noteq> Null \<and> b \<noteq> Null \<and> a = b)"

definition sql_sum :: "rat option list \<Rightarrow> rat option" where
  "sql_sum xs = (if list_all (\<lambda>x. x = None) xs then None
                 else Some (sum_list (map (\<lambda>x. case x of None \<Rightarrow> 0 | Some q \<Rightarrow> q) xs)))"

definition group_by :: "('r \<Rightarrow> 'k) \<Rightarrow> 'r list \<Rightarrow> ('k \<times> 'r list) list" where
  "group_by key rs = map (\<lambda>k. (k, filter (\<lambda>r. key r = k) rs)) (remdups (map key rs))"

definition left_join :: "('a \<Rightarrow> 'b \<Rightarrow> bool) \<Rightarrow> 'a list \<Rightarrow> 'b list \<Rightarrow> ('a \<times> 'b option) list" where
  "left_join on as bs =
     concat (map (\<lambda>a. case filter (on a) bs of
                         [] \<Rightarrow> [(a, None)]
                       | ms \<Rightarrow> map (\<lambda>b. (a, Some b)) ms) as)"

text \<open>
  \<open>ORDER BY k DESC\<close>: SQLite takes NULL for smaller than every number, which is the
  order of \<open>rat option\<close> (\<open>None\<close> below every \<open>Some q\<close>); descending, the NULLs
  come last. The order among equal keys is open in SQLite; here it is the one
  \<open>sort_key\<close> gives.
\<close>

definition order_by_desc :: "('r \<Rightarrow> rat option) \<Rightarrow> 'r list \<Rightarrow> 'r list" where
  "order_by_desc k rs = rev (sort_key k rs)"

text \<open>
  The three pieces of text that depend on the detected column (lines 80 to 87):
  the join clause, the ActualPrice item and the Volume item of the select list.
  \<open>if product_col\<close> is false for \<open>None\<close> and for the empty string.
\<close>

definition query_parts :: "string option \<Rightarrow> string \<times> string \<times> string" where
  "query_parts product_col =
     (case product_col of
        Some col \<Rightarrow> if col \<noteq> []
          then (''LEFT JOIN product_prices pp ON p.'' @ col @ '' = pp.ProductID'',
                ''pp.Price AS ActualPrice'', ''pp.Volume'')
          else ([], ''NULL AS ActualPrice'', ''NULL AS Volume'')
      | None \<Rightarrow> ([], ''NULL AS ActualPrice'', ''NULL AS Volume''))"

text \<open>
  \<open>FROM purchases p {join_clause}\<close> with the two select items: every purchases row
  with its ActualPrice and Volume. With a join clause these are the Price and Volume of
  each product_prices row whose ProductID equals the row's product column, and NULL when
  there is none; without a join clause they are the literal NULLs.
\<close>

definition purchases_joined :: "string option \<Rightarrow> conn \<Rightarrow> (purchases_row \<times> cell \<times> cell) list" where
  "purchases_joined product_col c =
     (case product_col of
        Some col \<Rightarrow> if col \<noteq> []
          then map (\<lambda>(p, m). case m of
                       None \<Rightarrow> (p, Null, Null)
                     | Some pp \<Rightarrow> (p, Price pp, product_prices_row.Volume pp))
                 (left_join (\<lambda>p pp. sql_eq (Other p col) (ProductID pp))
                    (purchases c) (product_prices c))
          else map (\<lambda>p. (p, Null, Null)) (purchases c)
      | None \<Rightarrow> map (\<lambda>p. (p, Null, Null)) (purchases c))"

text \<open>The text columns as pandas reads them: NULL is \<open>None\<close>, a text is a \<open>str\<close>.\<close>

definition py_text :: "string option \<Rightarrow> obj" where
  "py_text t = (case t of None \<Rightarrow> PyNone | Some s \<Rightarrow> PyStr s)"

text \<open>The common table expression FreightSummary: one row per VendorNumber.\<close>

definition FreightSummary :: "conn \<Rightarrow> (cell \<times> rat option) list" where
  "FreightSummary c =
     map (\<lambda>(v, g). (v, sql_sum (map Freight g)))
       (group_by vendor_invoice_row.VendorNumber (vendor_invoice c))"

text \<open>
  PurchaseSummary: the joined rows grouped by the seven columns of the
  \<open>GROUP BY\<close>, with the two sums.
\<close>

definition PurchaseSummary :: "string option \<Rightarrow> conn \<Rightarrow> purchase_summary_row list" where
  "PurchaseSummary product_col c =
     map (\<lambda>((vendor_number, vendor_name, brand, description, purchase_price,
               actual_price, volume), g).
            \<lparr>VendorNumber = vendor_number, VendorName = py_text vendor_name,
             Brand = brand, Description = py_text description,
             PurchasePrice = purchase_price, ActualPrice = actual_price, Volume = volume,
             TotalPurchaseQuantity = sql_sum (map (\<lambda>(p, a, v). Quantity p) g),
             TotalPurchaseDollars = sql_sum (map (\<lambda>(p, a, v). Dollars p) g)\<rparr>)
       (group_by (\<lambda>(p, a, v). (purchases_row.VendorNumber p, purchases_row.VendorName p,
                    purchases_row.Brand p, purchases_row.Description p,
                    purchases_row.PurchasePrice p, a, v))
          (purchases_joined product_col c))"

text \<open>SalesSummary: one row per (VendorNo, Brand), with the two sums.\<close>

definition SalesSummary :: "conn \<Rightarrow> (cell \<times> cell \<times> rat option \<times> rat option) list" where
  "SalesSummary c =
     map (\<lambda>((vendor_no, brand), g).
            (vendor_no, brand, sql_sum (map SalesQuantity g), sql_sum (map SalesDollars g)))
       (group_by (\<lambda>s. (VendorNo s, sales_row.Brand s)) (sales c))"

text \<open>
  The final select: PurchaseSummary left-joined to SalesSummary on VendorNumber and
  Brand, then to FreightSummary on VendorNumber, ordered by TotalPurchaseDollars
  descending.
\<close>

definition summary_query :: "string option \<Rightarrow> conn \<Rightarrow> summary_row list" where
  "summary_query product_col c =
     order_by_desc TotalPurchaseDollars
       (map (\<lambda>((ps, ss), fs).
               purchase_summary_row.extend ps
                 \<lparr>TotalSalesQuantity = (case ss of None \<Rightarrow> None | Some (n, b, q, d) \<Rightarrow> q),
                  TotalSalesDollars = (case ss of None \<Rightarrow> None | Some (n, b, q, d) \<Rightarrow> d),
                  FreightCost = (case fs of None \<Rightarrow> None | Some (n, f) \<Rightarrow> f)\<rparr>)
          (left_join (\<lambda>(ps, ss) (n, f). sql_eq (VendorNumber ps) n)
             (left_join (\<lambda>ps (n, b, q, d). sql_eq (VendorNumber ps) n \<and> sql_eq (Brand ps) b)
                (PurchaseSummary product_col c) (SalesSummary c))
             (FreightSummary c)))"

text \<open>
  Python objects live in a heap: a list of DataFrames, a reference is an index.
  \<open>pd.read_sql_query\<close> builds a new DataFrame, without metric columns.
\<close>

type_synonym heap = "dataframe list"

definition alloc :: "dataframe \<Rightarrow> heap \<Rightarrow> heap \<times> nat" where
  "alloc df h = (h @ [df], length h)"

definition read_sql_query :: "summary_row list \<Rightarrow> heap \<Rightarrow> heap \<times> nat" where
  "read_sql_query result h = alloc \<lparr>rows = result, metrics = None\<rparr> h"

definition create_vendor_summary :: "conn \<Rightarrow> heap \<Rightarrow> heap \<times> nat" where
  "create_vendor_summary c h =
     (let purchase_cols = table_columns c ''purchases'';
          product_col = detect_product_column purchase_cols
      in read_sql_query (summary_query product_col c) h)"

subsection \<open>clean_data\<close>

text \<open>
  \<open>fillna(0)\<close>, cell by cell, for the three kinds of column: a missing value becomes
  the number 0, every other value stays.
\<close>

definition fillna_cell :: "cell \<Rightarrow> cell" where
  "fillna_cell v = (case v of Null \<Rightarrow> Num 0 | _ \<Rightarrow> v)"

definition fillna_obj :: "obj \<Rightarrow> obj" where
  "fillna_obj v = (case v of PyNone \<Rightarrow> PyInt 0 | _ \<Rightarrow> v)"

definition fillna_float :: "rat option \<Rightarrow> rat option" where
  "fillna_float v = (case v of None \<Rightarrow> Some 0 | _ \<Rightarrow> v)"

definition fillna_row :: "summary_row \<Rightarrow> summary_row" where
  "fillna_row r =
     \<lparr>VendorNumber = fillna_cell (VendorNumber r),
      VendorName = fillna_obj (VendorName r),
      Brand = fillna_cell (Brand r),
      Description = fillna_obj (Description r),
      PurchasePrice = fillna_cell (PurchasePrice r),
      ActualPrice = fillna_cell (ActualPrice r),
      Volume = fillna_cell (Volume r),
      TotalPurchaseQuantity = fillna_float (TotalPurchaseQuantity r),
      TotalPurchaseDollars = fillna_float (TotalPurchaseDollars r),
      TotalSalesQuantity = fillna_float (TotalSalesQuantity r),
      TotalSalesDollars = fillna_float (TotalSalesDollars r),
      FreightCost = fillna_float (FreightCost r)\<rparr>"

definition fillna_metrics :: "metrics_row \<Rightarrow> metrics_row" where
  "fillna_metrics m =
     \<lparr>GrossProfit = fillna_float (GrossProfit m),
      ProfitMargin = fillna_float (ProfitMargin m),
      StockTurnover = fillna_float (StockTurnover m),
      SalesToPurchaseRatio = fillna_float (SalesToPurchaseRatio m)\<rparr>"

definition fillna :: "dataframe \<Rightarrow> dataframe" where
  "fillna df = \<lparr>rows = map fillna_row (rows df),
                metrics = map_option (map fillna_metrics) (metrics df)\<rparr>"

text \<open>
  A float64 value as \<open>pd.to_numeric\<close> returns it: NaN, a finite number or one of the
  two infinities.
\<close>

datatype float64 = NaN | Fin rat | PInf | NInf

text \<open>
  \<open>pd.to_numeric(x, errors='coerce')\<close> on one cell: a number and an infinity stay, a
  missing value is NaN, and a string is what the library's parser makes of it: NaN when
  it cannot be read as a number, an infinity for a string such as \<open>inf\<close>. The parser
  belongs to pandas, not to this script: it is the parameter \<open>parse\<close>. The
  \<open>fillna(0)\<close> that follows replaces NaN only.
\<close>

definition to_numeric :: "(string \<Rightarrow> float64) \<Rightarrow> cell \<Rightarrow> float64" where
  "to_numeric parse v =
     (case v of Null \<Rightarrow> NaN | Num q \<Rightarrow> Fin q | PosInf \<Rightarrow> PInf | NegInf \<Rightarrow> NInf
      | Text s \<Rightarrow> parse s)"

definition fillna_f64 :: "float64 \<Rightarrow> float64" where
  "fillna_f64 v = (case v of NaN \<Rightarrow> Fin 0 | _ \<Rightarrow> v)"

definition cell_of_float :: "float64 \<Rightarrow> cell" where
  "cell_of_float v =
     (case v of NaN \<Rightarrow> Null | Fin q \<Rightarrow> Num q | PInf \<Rightarrow> PosInf | NInf \<Rightarrow> NegInf)"

text \<open>Python's \<open>str\<close> on an \<open>int\<close>: the decimal digits, after a minus sign if negative.\<close>

fun digits :: "nat \<Rightarrow> string" where
  "digits n = (if n < 10 then [''0123456789'' ! n]
               else digits (n div 10) @ [''0123456789'' ! (n mod 10)])"

declare digits.simps [simp del]

definition str_int :: "int \<Rightarrow> string" where
  "str_int i = (if i < 0 then CHR ''-'' # digits (nat (- i)) else digits (nat i))"

text \<open>\<open>astype(str)\<close> on one cell of an object column is Python's \<open>str\<close>.\<close>

definition astype_str :: "obj \<Rightarrow> string" where
  "astype_str v = (case v of PyNone \<Rightarrow> ''None'' | PyInt i \<Rightarrow> str_int i | PyStr s \<Rightarrow> s)"

text \<open>
  \<open>str.strip()\<close> removes the whitespace characters at both ends. Python's whitespace
  is the 29 characters for which \<open>str.isspace()\<close> holds, here in UTF-8: the code
  points 9 to 13, 28 to 32, U+0085, U+00A0, U+1680, U+2000 to U+200A, U+2028, U+2029,
  U+202F, U+205F and U+3000.
\<close>

definition whitespace :: "string list" where
  "whitespace =
     [[CHR 0x09], [CHR 0x0A], [CHR 0x0B], [CHR 0x0C], [CHR 0x0D],
      [CHR 0x1C], [CHR 0x1D], [CHR 0x1E], [CHR 0x1F], [CHR 0x20],
      [CHR 0xC2, CHR 0x85], [CHR 0xC2, CHR 0xA0], [CHR 0xE1, CHR 0x9A, CHR 0x80],
      [CHR 0xE2, CHR 0x80, CHR 0x80], [CHR 0xE2, CHR 0x80, CHR 0x81],
      [CHR 0xE2, CHR 0x80, CHR 0x82], [CHR 0xE2, CHR 0x80, CHR 0x83],
      [CHR 0xE2, CHR 0x80, CHR 0x84], [CHR 0xE2, CHR 0x80, CHR 0x85],
      [CHR 0xE2, CHR 0x80, CHR 0x86], [CHR 0xE2, CHR 0x80, CHR 0x87],
      [CHR 0xE2, CHR 0x80, CHR 0x88], [CHR 0xE2, CHR 0x80, CHR 0x89],
      [CHR 0xE2, CHR 0x80, CHR 0x8A], [CHR 0xE2, CHR 0x80, CHR 0xA8],
      [CHR 0xE2, CHR 0x80, CHR 0xA9], [CHR 0xE2, CHR 0x80, CHR 0xAF],
      [CHR 0xE2, CHR 0x81, CHR 0x9F], [CHR 0xE3, CHR 0x80, CHR 0x80]]"

text \<open>
  \<open>drop_all ws s\<close> removes from the front of \<open>s\<close> one member of \<open>ws\<close> after
  the other, as long as there is one. In UTF-8 the encoding of a character is at the
  front of a string only if the string starts with that character, and at its end only
  if the string ends with it.
\<close>

function drop_all :: "'a list list \<Rightarrow> 'a list \<Rightarrow> 'a list" where
  "drop_all ws s =
     (case find (\<lambda>w. w \<noteq> [] \<and> prefix w s) ws of
        None \<Rightarrow> s
      | Some w \<Rightarrow> drop_all ws (drop (length w) s))"
  by pat_completeness auto

termination
proof (relation "measure (\<lambda>(ws, s). length s)")
  show "wf (measure (\<lambda>(ws :: 'a list list, s :: 'a list). length s))"
    by simp
next
  fix ws :: "'a list list" and s w :: "'a list"
  assume "find (\<lambda>w. w \<noteq> [] \<and> prefix w s) ws = Some w"
  then have "w \<noteq> [] \<and> prefix w s"
    by (auto simp: find_Some_iff)
  then obtain a v where "w = a # v" and "length w \<le> length s"
    by (cases w) (auto simp: prefix_def)
  then show "((ws, drop (length w) s), (ws, s)) \<in> measure (\<lambda>(ws, s). length s)"
    by simp
qed

declare drop_all.simps [simp del]

definition lstrip :: "string \<Rightarrow> string" where
  "lstrip s = drop_all whitespace s"

definition rstrip :: "string \<Rightarrow> string" where
  "rstrip s = rev (drop_all (map rev whitespace) (rev s))"

definition strip :: "string \<Rightarrow> string" where
  "strip s = rstrip (lstrip s)"

text \<open>
  Arithmetic on the totals, in exact rationals. A missing operand gives a missing
  result. A division by zero does not raise in pandas: it gives an infinity or NaN, for
  which the model has only \<open>None\<close>; \<open>clean_data\<close> never divides by 0, since
  \<open>replace(0, 1)\<close>, which puts 1 where the cell is 0, comes first. What int64 and
  float64 do beyond that (wrap-around, rounding, overflow) is not modelled.
\<close>

definition pd_sub :: "rat option \<Rightarrow> rat option \<Rightarrow> rat option" where
  "pd_sub a b = (case (a, b) of (Some x, Some y) \<Rightarrow> Some (x - y) | _ \<Rightarrow> None)"

definition pd_div :: "rat option \<Rightarrow> rat option \<Rightarrow> rat option" where
  "pd_div a b = (case (a, b) of
                   (Some x, Some y) \<Rightarrow> if y = 0 then None else Some (x / y)
                 | _ \<Rightarrow> None)"

definition replace_0_1 :: "rat option \<Rightarrow> rat option" where
  "replace_0_1 v = (if v = Some 0 then Some 1 else v)"

text \<open>
  The four assignments of lines 147 to 150, for one row: each column is computed from
  the columns assigned before it.
\<close>

definition business_metrics :: "summary_row \<Rightarrow> metrics_row" where
  "business_metrics r =
     (let gross_profit = pd_sub (TotalSalesDollars r) (TotalPurchaseDollars r);
          profit_margin = pd_div gross_profit (replace_0_1 (TotalSalesDollars r));
          stock_turnover =
            pd_div (TotalSalesQuantity r) (replace_0_1 (TotalPurchaseQuantity r));
          sales_to_purchase_ratio =
            pd_div (TotalSalesDollars r) (replace_0_1 (TotalPurchaseDollars r))
      in \<lparr>GrossProfit = gross_profit, ProfitMargin = profit_margin,
          StockTurnover = stock_turnover,
          SalesToPurchaseRatio = sales_to_purchase_ratio\<rparr>)"

text \<open>
  \<open>clean_data\<close> takes a reference to a DataFrame. \<open>df.copy()\<close> allocates a new
  DataFrame with the same contents and rebinds the local name \<open>df\<close> to it; every
  later statement updates the object that \<open>df\<close> refers to, in place. An assignment
  \<open>df[c] = f(df[c])\<close> works cell by cell, so it is a \<open>map\<close> over the rows. The four
  metric columns are assigned in one step.
\<close>

definition df_copy :: "heap \<Rightarrow> nat \<Rightarrow> heap \<times> nat" where
  "df_copy h df = alloc (h ! df) h"

definition modify :: "nat \<Rightarrow> (dataframe \<Rightarrow> dataframe) \<Rightarrow> heap \<Rightarrow> heap" where
  "modify df f h = h[df := f (h ! df)]"

definition map_rows :: "(summary_row \<Rightarrow> summary_row) \<Rightarrow> dataframe \<Rightarrow> dataframe" where
  "map_rows f df = df\<lparr>rows := map f (rows df)\<rparr>"

definition clean_data :: "(string \<Rightarrow> float64) \<Rightarrow> heap \<Rightarrow> nat \<Rightarrow> heap \<times> nat" where
  "clean_data parse h df0 =
     (let (h, df) = df_copy h df0;
          h = modify df fillna h;
          h = modify df (map_rows (\<lambda>r.
                r\<lparr>Volume := cell_of_float (fillna_f64 (to_numeric parse (Volume r)))\<rparr>)) h;
          h = modify df (map_rows (\<lambda>r.
                r\<lparr>VendorName := PyStr (strip (astype_str (VendorName r)))\<rparr>)) h;
          h = modify df (map_rows (\<lambda>r.
                r\<lparr>Description := PyStr (strip (astype_str (Description r)))\<rparr>)) h;
          h = modify df (\<lambda>d. d\<lparr>metrics := Some (map business_metrics (rows d))\<rparr>) h
      in (h, df))"

subsection \<open>ingest_db and the main script\<close>

text \<open>
  \<open>to_sql(table_name, conn, if_exists='replace', index=False)\<close>: the table of that
  name is dropped if it is there and written anew with the rows of the DataFrame;
  pandas commits the write.
\<close>

definition ingest_db :: "heap \<Rightarrow> nat \<Rightarrow> string \<Rightarrow> conn \<Rightarrow> conn" where
  "ingest_db h df table_name c =
     commit (c\<lparr>existing_tables := insert table_name (existing_tables c),
               stored_frames := (stored_frames c)(table_name \<mapsto> h ! df)\<rparr>)"

text \<open>
  The body of the \<open>try\<close> block, on an open connection and an empty heap. An exception
  of the verification ends the run: the \<open>except\<close> clause logs it and the later
  steps are skipped.
\<close>

definition main :: "(string \<Rightarrow> float64) \<Rightarrow> conn \<Rightarrow> conn \<times> (error + unit)" where
  "main parse c =
     (case verify_and_create_tables c of
        (c, Inl e) \<Rightarrow> (c, Inl e)
      | (c, Inr u) \<Rightarrow>
          (let (h, summary_df) = create_vendor_summary c [];
               (h, clean_df) = clean_data parse h summary_df;
               c = ingest_db h clean_df ''vendor_sales_summary'' c
           in (c, Inr ())))"

subsection \<open>Descriptions used by the properties\<close>

text \<open>
  What lines 140 to 144 of \<open>clean_data\<close> do to one row, and the whole DataFrame that
  \<open>clean_data\<close> builds from a DataFrame; \<open>clean_data_eq\<close> below proves that
  this is what the function returns.
\<close>

definition clean_row :: "(string \<Rightarrow> float64) \<Rightarrow> summary_row \<Rightarrow> summary_row" where
  "clean_row parse r =
     (fillna_row r)
       \<lparr>Volume := cell_of_float (fillna_f64 (to_numeric parse (fillna_cell (Volume r)))),
        VendorName := PyStr (strip (astype_str (fillna_obj (VendorName r)))),
        Description := PyStr (strip (astype_str (fillna_obj (Description r))))\<rparr>"

definition cleaned :: "(string \<Rightarrow> float64) \<Rightarrow> dataframe \<Rightarrow> dataframe" where
  "cleaned parse d =
     \<lparr>rows = map (clean_row parse) (rows d),
      metrics = Some (map (\<lambda>r. business_metrics (clean_row parse r)) (rows d))\<rparr>"

text \<open>
  A run of whitespace: the concatenation of any number of whitespace characters.
\<close>

definition ws_run :: "string \<Rightarrow> bool" where
  "ws_run x = (\<exists>ps. set ps \<subseteq> set whitespace \<and> x = concat ps)"

text \<open>A row to run the functions on.\<close>

definition ex_row :: summary_row where
  "ex_row = \<lparr>VendorNumber = Num 7, VendorName = PyStr ''  Acme  '', Brand = Num 1,
     Description = PyNone, PurchasePrice = Num 2, ActualPrice = Null, Volume = Text ''abc'',
     TotalPurchaseQuantity = Some 0, TotalPurchaseDollars = Some 0,
     TotalSalesQuantity = Some 10, TotalSalesDollars = Some 500, FreightCost = None\<rparr>"

text \<open>
  A second row, whose name ends with the no-break space U+00A0 and whose Volume is the
  string "inf", and a parser that reads "inf" as infinity and nothing else as a
  number.
\<close>

definition ex_row_nbsp :: summary_row where
  "ex_row_nbsp = ex_row\<lparr>VendorName := PyStr (''Acme'' @ [CHR 0xC2, CHR 0xA0]),
                         Volume := Text ''inf''\<rparr>"

definition ex_parse :: "string \<Rightarrow> float64" where
  "ex_parse s = (if s = ''inf'' then PInf else NaN)"

text \<open>The DataFrame that \<open>create_vendor_summary\<close> builds on a connection.\<close>

definition summary_frame :: "conn \<Rightarrow> dataframe" where
  "summary_frame c =
     \<lparr>rows = summary_query (detect_product_column (table_columns c ''purchases'')) c,
      metrics = None\<rparr>"

text \<open>
  A small store to run the functions on: two purchases, of which only the first has a
  sale and an invoice; purchases has no product column and product_prices is not there.
\<close>

definition ex_conn :: conn where
  "ex_conn =
     \<lparr>existing_tables = {''vendor_invoice'', ''purchases'', ''sales''},
      committed_tables = {''vendor_invoice'', ''purchases'', ''sales''},
      table_info = (\<lambda>t. if t = ''purchases''
         then [''VendorNumber'', ''VendorName'', ''Brand'', ''Description'', ''PurchasePrice'',
               ''Quantity'', ''Dollars'']
         else []),
      vendor_invoice = [\<lparr>vendor_invoice_row.VendorNumber = Num 1, Freight = Some 4\<rparr>],
      purchases =
        [\<lparr>purchases_row.VendorNumber = Num 1, purchases_row.VendorName = Some ''  Acme  '',
          purchases_row.Brand = Num 10, purchases_row.Description = Some ''Gin'',
          purchases_row.PurchasePrice = Num 2, Quantity = Some 3, Dollars = Some 6,
          Other = (\<lambda>c. Null)\<rparr>,
         \<lparr>purchases_row.VendorNumber = Num 2, purchases_row.VendorName = Some ''Bolt'',
          purchases_row.Brand = Num 20, purchases_row.Description = None,
          purchases_row.PurchasePrice = Num 5, Quantity = Some 4, Dollars = Some 20,
          Other = (\<lambda>c. Null)\<rparr>],
      sales = [\<lparr>VendorNo = Num 1, sales_row.Brand = Num 10, SalesQuantity = Some 2,
                SalesDollars = Some 9\<rparr>],
      product_prices = [],
      stored_frames = Map.empty\<rparr>"

section \<open>Properties\<close>

subsection \<open>The product column\<close>

lemma first_present_None: "first_present cs columns = None \<longleftrightarrow> (\<forall>c \<in> set cs. c \<notin> set columns)"
  by (induction cs) auto

lemma first_present_Some:
  "first_present cs columns = Some c \<longleftrightarrow>
     (\<exists>pre post. cs = pre @ c # post \<and> c \<in> set columns \<and> (\<forall>d \<in> set pre. d \<notin> set columns))"
proof (induction cs)
  case Nil
  then show ?case by simp
next
  case (Cons a cs)
  show ?case
  proof (cases "a \<in> set columns")
    case True
    have "(\<exists>pre post. a # cs = pre @ c # post \<and> c \<in> set columns \<and> (\<forall>d \<in> set pre. d \<notin> set columns)) \<longleftrightarrow> a = c"
    proof
      assume "\<exists>pre post. a # cs = pre @ c # post \<and> c \<in> set columns \<and> (\<forall>d \<in> set pre. d \<notin> set columns)"
      then obtain pre post where e: "a # cs = pre @ c # post" and n: "\<forall>d \<in> set pre. d \<notin> set columns" by blast
      show "a = c"
      proof (cases pre)
        case Nil
        with e show ?thesis by simp
      next
        case (Cons b bs)
        with e have "b = a" by simp
        with Cons n True show ?thesis by simp
      qed
    next
      assume "a = c"
      with True have "a # cs = [] @ c # cs \<and> c \<in> set columns \<and> (\<forall>d \<in> set []. d \<notin> set columns)" by simp
      then show "\<exists>pre post. a # cs = pre @ c # post \<and> c \<in> set columns \<and> (\<forall>d \<in> set pre. d \<notin> set columns)" by blast
    qed
    with True show ?thesis by simp
  next
    case False
    have "(\<exists>pre post. a # cs = pre @ c # post \<and> c \<in> set columns \<and> (\<forall>d \<in> set pre. d \<notin> set columns))
       \<longleftrightarrow> (\<exists>pre post. cs = pre @ c # post \<and> c \<in> set columns \<and> (\<forall>d \<in> set pre. d \<notin> set columns))"
      (is "?L \<longleftrightarrow> ?R")
    proof
      assume ?L
      then obtain pre post where e: "a # cs = pre @ c # post" and m: "c \<in> set columns" and n: "\<forall>d \<in> set pre. d \<notin> set columns" by blast
      show ?R
      proof (cases pre)
        case Nil
        with e m False show ?thesis by simp
      next
        case (Cons b bs)
        with e n have "cs = bs @ c # post \<and> c \<in> set columns \<and> (\<forall>d \<in> set bs. d \<notin> set columns)" using m by simp
        then show ?thesis by blast
      qed
    next
      assume ?R
      then obtain pre post where "cs = pre @ c # post" "c \<in> set columns" "\<forall>d \<in> set pre. d \<notin> set columns" by blast
      with False have "a # cs = (a # pre) @ c # post \<and> c \<in> set columns \<and> (\<forall>d \<in> set (a # pre). d \<notin> set columns)" by simp
      then show ?L by blast
    qed
    with False Cons.IH show ?thesis by simp
  qed
qed

text \<open>
  Claim C3. For every list of column names, \<open>detect_product_column\<close> returns the first
  name of the priority list ProductID, ItemID, SKU, ProductCode that is in the list
  (every candidate before it is absent), and \<open>None\<close> exactly when no candidate is in
  the list. In particular ProductID is returned whenever it is present, whatever else
  and in whatever order the list holds.
\<close>

theorem detect_product_column_priority:
  "(detect_product_column columns = None \<longleftrightarrow> (\<forall>c \<in> set candidates. c \<notin> set columns)) \<and>
   (\<forall>c. detect_product_column columns = Some c \<longleftrightarrow>
      (\<exists>pre post. candidates = pre @ c # post \<and> c \<in> set columns \<and>
         (\<forall>d \<in> set pre. d \<notin> set columns))) \<and>
   (''ProductID'' \<in> set columns \<longrightarrow> detect_product_column columns = Some ''ProductID'')"
proof -
  have a: "detect_product_column columns = None \<longleftrightarrow> (\<forall>c \<in> set candidates. c \<notin> set columns)"
    unfolding detect_product_column_def by (rule first_present_None)
  have b: "\<forall>c. detect_product_column columns = Some c \<longleftrightarrow>
      (\<exists>pre post. candidates = pre @ c # post \<and> c \<in> set columns \<and>
         (\<forall>d \<in> set pre. d \<notin> set columns))"
    unfolding detect_product_column_def by (intro allI, rule first_present_Some)
  have c: "''ProductID'' \<in> set columns \<longrightarrow> detect_product_column columns = Some ''ProductID''"
    by (simp add: detect_product_column_def candidates_def)
  from a b c show ?thesis by blast
qed

theorem detect_product_column_priority_witness:
  "detect_product_column [''SKU'', ''ProductID''] = Some ''ProductID'' \<and>
   detect_product_column [''ProductID'', ''SKU''] = Some ''ProductID'' \<and>
   detect_product_column [''Brand'', ''SKU'', ''ProductCode''] = Some ''SKU'' \<and>
   detect_product_column [''Brand'', ''Quantity''] = None"
  using detect_product_column_priority [of "[''SKU'', ''ProductID'']"]
    detect_product_column_priority [of "[''ProductID'', ''SKU'']"]
    detect_product_column_priority [of "[''Brand'', ''Quantity'']"]
  by (simp add: candidates_def detect_product_column_def)

subsection \<open>clean_data\<close>

lemma modify_new: "modify (length h) f (h @ [d]) = h @ [f d]"
  by (simp add: modify_def)

lemma clean_steps:
  "(\<lambda>d. d\<lparr>metrics := Some (map business_metrics (rows d))\<rparr>)
     (map_rows (\<lambda>r. r\<lparr>Description := PyStr (strip (astype_str (Description r)))\<rparr>)
        (map_rows (\<lambda>r. r\<lparr>VendorName := PyStr (strip (astype_str (VendorName r)))\<rparr>)
           (map_rows (\<lambda>r. r\<lparr>Volume := cell_of_float (fillna_f64 (to_numeric parse (Volume r)))\<rparr>)
              (fillna d)))) = cleaned parse d"
  by (simp add: map_rows_def fillna_def cleaned_def clean_row_def fillna_row_def)

lemma clean_data_eq: "clean_data parse h df0 = (h @ [cleaned parse (h ! df0)], length h)"
  using clean_steps [of parse "h ! df0"]
  by (simp add: clean_data_def df_copy_def alloc_def modify_new)

lemma clean_data_result:
  assumes "clean_data parse h df0 = (h', df)"
  shows "df = length h" and "h' = h @ [cleaned parse (h ! df0)]" and "h' ! df = cleaned parse (h ! df0)"
  using assms by (auto simp: clean_data_eq)

text \<open>
  Claim C9. \<open>clean_data\<close> does not change its input: the DataFrame the argument refers
  to, and every other DataFrame of the heap, is the same after the call; the result is a
  new DataFrame, at a reference that was not in use.
\<close>

theorem clean_data_keeps_input:
  assumes "df0 < length h" and "clean_data parse h df0 = (h', df)"
  shows "h' ! df0 = h ! df0 \<and> df \<noteq> df0 \<and> df = length h \<and> length h' = Suc (length h) \<and>
         (\<forall>i < length h. h' ! i = h ! i)"
proof -
  have d: "df = length h" and e: "h' = h @ [cleaned parse (h ! df0)]"
    using assms(2) by (rule clean_data_result)+
  from assms(1) d e show ?thesis by (simp add: nth_append)
qed

theorem clean_data_keeps_input_witness:
  "(0::nat) < length [\<lparr>rows = [ex_row], metrics = None\<rparr>] \<and>
   fst (clean_data (\<lambda>s. NaN) [\<lparr>rows = [ex_row], metrics = None\<rparr>] 0) ! 0
     = \<lparr>rows = [ex_row], metrics = None\<rparr> \<and>
   snd (clean_data (\<lambda>s. NaN) [\<lparr>rows = [ex_row], metrics = None\<rparr>] 0) = 1"
proof -
  let ?h = "[\<lparr>rows = [ex_row], metrics = None\<rparr>]"
  let ?p = "\<lambda>s::string. NaN"
  have a: "(0::nat) < length ?h" by simp
  have b: "clean_data ?p ?h 0 = (fst (clean_data ?p ?h 0), snd (clean_data ?p ?h 0))" by simp
  from clean_data_keeps_input [OF a b] show ?thesis by simp
qed

lemma str_int_0: "str_int 0 = ''0''"
  by (simp add: str_int_def digits.simps)

lemma whitespace_nonempty: "w \<in> set whitespace \<Longrightarrow> w \<noteq> []"
  by (auto simp: whitespace_def)

lemma drop_all_split: "\<exists>ps. set ps \<subseteq> set ws \<and> s = concat ps @ drop_all ws s"
proof (induction ws s rule: drop_all.induct)
  case (1 ws s)
  show ?case
  proof (cases "find (\<lambda>w. w \<noteq> [] \<and> prefix w s) ws")
    case None
    then have "drop_all ws s = s" by (simp add: drop_all.simps)
    then have "set [] \<subseteq> set ws \<and> s = concat [] @ drop_all ws s" by simp
    then show ?thesis by blast
  next
    case (Some w)
    then have w: "w \<in> set ws" and p: "prefix w s"
      by (auto simp: find_Some_iff)
    from Some have d: "drop_all ws s = drop_all ws (drop (length w) s)"
      by (simp add: drop_all.simps)
    from "1" [OF Some] obtain ps where ps: "set ps \<subseteq> set ws"
      and e: "drop (length w) s = concat ps @ drop_all ws (drop (length w) s)"
      by blast
    from p have "s = w @ drop (length w) s" by (auto simp: prefix_def)
    with e d have "s = concat (w # ps) @ drop_all ws s" by simp
    moreover from w ps have "set (w # ps) \<subseteq> set ws" by simp
    ultimately show ?thesis by blast
  qed
qed

lemma drop_all_no_prefix:
  assumes "w \<in> set ws" and "w \<noteq> []"
  shows "\<not> prefix w (drop_all ws s)"
  using assms
proof (induction ws s rule: drop_all.induct)
  case (1 ws s)
  show ?case
  proof (cases "find (\<lambda>w. w \<noteq> [] \<and> prefix w s) ws")
    case None
    then have "drop_all ws s = s" by (simp add: drop_all.simps)
    moreover from None "1.prems" have "\<not> prefix w s" by (auto simp: find_None_iff)
    ultimately show ?thesis by simp
  next
    case (Some v)
    then have "drop_all ws s = drop_all ws (drop (length v) s)"
      by (simp add: drop_all.simps)
    with "1.IH" [OF Some "1.prems"] show ?thesis by simp
  qed
qed

lemma strip_spec:
  "\<exists>pre post. s = pre @ strip s @ post \<and> ws_run pre \<and> ws_run post \<and>
     (\<forall>w \<in> set whitespace. \<not> prefix w (strip s) \<and> \<not> suffix w (strip s))"
proof -
  let ?u = "lstrip s"
  let ?t = "strip s"
  obtain ps where ps: "set ps \<subseteq> set whitespace" and s: "s = concat ps @ ?u"
    unfolding lstrip_def using drop_all_split by blast
  obtain qs where qs: "set qs \<subseteq> set (map rev whitespace)"
    and ru: "rev ?u = concat qs @ drop_all (map rev whitespace) (rev ?u)"
    using drop_all_split by blast
  have "rev (rev ?u) = rev (concat qs @ drop_all (map rev whitespace) (rev ?u))"
    using ru by (rule arg_cong)
  then have u: "?u = ?t @ concat (map rev (rev qs))"
    by (simp add: strip_def rstrip_def rev_concat)
  have post: "set (map rev (rev qs)) \<subseteq> set whitespace"
    using qs by auto
  have np: "\<forall>w \<in> set whitespace. \<not> prefix w ?t"
  proof
    fix w assume w: "w \<in> set whitespace"
    then have "\<not> prefix w ?u"
      unfolding lstrip_def using drop_all_no_prefix whitespace_nonempty by blast
    then show "\<not> prefix w ?t"
      using u by (metis prefix_prefix)
  qed
  have ns: "\<forall>w \<in> set whitespace. \<not> suffix w ?t"
  proof
    fix w assume w: "w \<in> set whitespace"
    then have "rev w \<in> set (map rev whitespace)" and "rev w \<noteq> []"
      using whitespace_nonempty by auto
    then have "\<not> prefix (rev w) (drop_all (map rev whitespace) (rev ?u))"
      by (rule drop_all_no_prefix)
    then show "\<not> suffix w ?t"
      by (simp add: strip_def rstrip_def suffix_to_prefix)
  qed
  from s u have "s = concat ps @ ?t @ concat (map rev (rev qs))" by simp
  moreover from ps have "ws_run (concat ps)" unfolding ws_run_def by blast
  moreover from post have "ws_run (concat (map rev (rev qs)))" unfolding ws_run_def by blast
  ultimately show ?thesis using np ns by blast
qed

lemma strip_0: "strip ''0'' = ''0''"
  by (simp add: strip_def lstrip_def rstrip_def drop_all.simps whitespace_def)

lemma strip_Acme: "strip ''  Acme  '' = ''Acme''"
  by (simp add: strip_def lstrip_def rstrip_def drop_all.simps whitespace_def)

lemma strip_Acme_nbsp: "strip (''Acme'' @ [CHR 0xC2, CHR 0xA0]) = ''Acme''"
  by (simp add: strip_def lstrip_def rstrip_def drop_all.simps whitespace_def)

lemma strip_Bolt: "strip ''Bolt'' = ''Bolt''"
  by (simp add: strip_def lstrip_def rstrip_def drop_all.simps whitespace_def)

text \<open>
  Claim C10. A row whose VendorName, or Description, is null has the string "0" in that
  field after cleaning: the null is filled with the int 0 before the conversion to text,
  and the text of that int is "0". (The two columns are object columns, holding text
  and nulls, as the query delivers them.)
\<close>

theorem null_name_becomes_0:
  assumes "df0 < length h" and "clean_data parse h df0 = (h', df)"
    and "i < length (rows (h ! df0))"
  shows "(VendorName (rows (h ! df0) ! i) = PyNone \<longrightarrow>
            VendorName (rows (h' ! df) ! i) = PyStr ''0'') \<and>
         (Description (rows (h ! df0) ! i) = PyNone \<longrightarrow>
            Description (rows (h' ! df) ! i) = PyStr ''0'')"
proof -
  have f: "h' ! df = cleaned parse (h ! df0)"
    using assms(2) by (rule clean_data_result(3))
  show ?thesis
    using assms(3)
    by (simp add: f cleaned_def clean_row_def fillna_obj_def astype_str_def str_int_0 strip_0)
qed

theorem null_name_becomes_0_witness:
  "(0::nat) < length [\<lparr>rows = [ex_row], metrics = None\<rparr>] \<and>
   (0::nat) < length (rows ([\<lparr>rows = [ex_row], metrics = None\<rparr>] ! 0)) \<and>
   Description (rows ([\<lparr>rows = [ex_row], metrics = None\<rparr>] ! 0) ! 0) = PyNone \<and>
   Description (rows (fst (clean_data (\<lambda>s. NaN) [\<lparr>rows = [ex_row], metrics = None\<rparr>] 0) !
      snd (clean_data (\<lambda>s. NaN) [\<lparr>rows = [ex_row], metrics = None\<rparr>] 0)) ! 0) = PyStr ''0''"
proof -
  let ?h = "[\<lparr>rows = [ex_row], metrics = None\<rparr>]"
  let ?p = "\<lambda>s::string. NaN"
  have a: "(0::nat) < length ?h" by simp
  have b: "clean_data ?p ?h 0 = (fst (clean_data ?p ?h 0), snd (clean_data ?p ?h 0))" by simp
  have c: "(0::nat) < length (rows (?h ! 0))" by simp
  have d: "Description (rows (?h ! 0) ! 0) = PyNone" by (simp add: ex_row_def)
  from null_name_becomes_0 [OF a b c] d a c show ?thesis by simp
qed

text \<open>
  Claim C6. For every row, the cleaned VendorName and Description are strings: the text
  of the field (the string itself; the decimal digits of an int; "0" for a null) without
  its leading and trailing whitespace. That is, the text is \<open>pre @ t @ post\<close> where
  \<open>pre\<close> and \<open>post\<close> are runs of whitespace characters and \<open>t\<close> neither
  starts nor ends with a whitespace character, for the 29 whitespace characters of
  Python. The cleaned Volume is a float64 number, never a text or a null: the number
  itself; 0 for a null; for a string what the parser reads in it, and 0 when it reads no
  number; an infinity, stored or read from a string such as "inf", stays an infinity.
  The function is total, so no value raises. The witness cleans "  Acme  ", and "Acme"
  followed by U+00A0, to "Acme", the Volume "abc" to 0 and the Volume "inf" to infinity.
\<close>

theorem clean_data_trims_and_coerces:
  assumes "df0 < length h" and "clean_data parse h df0 = (h', df)"
    and "i < length (rows (h ! df0))"
  shows "let r = rows (h ! df0) ! i; r' = rows (h' ! df) ! i;
             name = (case VendorName r of PyNone \<Rightarrow> ''0'' | PyInt n \<Rightarrow> str_int n | PyStr s \<Rightarrow> s);
             desc = (case Description r of PyNone \<Rightarrow> ''0'' | PyInt n \<Rightarrow> str_int n | PyStr s \<Rightarrow> s)
         in (\<exists>t pre post. VendorName r' = PyStr t \<and> name = pre @ t @ post \<and>
                ws_run pre \<and> ws_run post \<and>
                (\<forall>w \<in> set whitespace. \<not> prefix w t \<and> \<not> suffix w t)) \<and>
            (\<exists>t pre post. Description r' = PyStr t \<and> desc = pre @ t @ post \<and>
                ws_run pre \<and> ws_run post \<and>
                (\<forall>w \<in> set whitespace. \<not> prefix w t \<and> \<not> suffix w t)) \<and>
            Volume r' = (case Volume r of
                           Null \<Rightarrow> Num 0
                         | Num q \<Rightarrow> Num q
                         | PosInf \<Rightarrow> PosInf
                         | NegInf \<Rightarrow> NegInf
                         | Text s \<Rightarrow> (case parse s of
                                        NaN \<Rightarrow> Num 0 | Fin q \<Rightarrow> Num q
                                      | PInf \<Rightarrow> PosInf | NInf \<Rightarrow> NegInf))"
proof -
  let ?r = "rows (h ! df0) ! i"
  let ?name = "case VendorName ?r of PyNone \<Rightarrow> ''0'' | PyInt n \<Rightarrow> str_int n | PyStr s \<Rightarrow> s"
  let ?desc = "case Description ?r of PyNone \<Rightarrow> ''0'' | PyInt n \<Rightarrow> str_int n | PyStr s \<Rightarrow> s"
  have f: "h' ! df = cleaned parse (h ! df0)"
    using assms(2) by (rule clean_data_result(3))
  have r': "rows (h' ! df) ! i = clean_row parse ?r"
    using assms(3) by (simp add: f cleaned_def)
  have n: "VendorName (clean_row parse ?r) = PyStr (strip ?name)"
    by (simp add: clean_row_def fillna_obj_def astype_str_def str_int_0 split: obj.splits)
  have d: "Description (clean_row parse ?r) = PyStr (strip ?desc)"
    by (simp add: clean_row_def fillna_obj_def astype_str_def str_int_0 split: obj.splits)
  have v: "Volume (clean_row parse ?r) = (case Volume ?r of
                           Null \<Rightarrow> Num 0
                         | Num q \<Rightarrow> Num q
                         | PosInf \<Rightarrow> PosInf
                         | NegInf \<Rightarrow> NegInf
                         | Text s \<Rightarrow> (case parse s of
                                        NaN \<Rightarrow> Num 0 | Fin q \<Rightarrow> Num q
                                      | PInf \<Rightarrow> PosInf | NInf \<Rightarrow> NegInf))"
    by (simp add: clean_row_def fillna_cell_def to_numeric_def fillna_f64_def cell_of_float_def
        split: cell.splits float64.splits)
  from strip_spec [of ?name] n
  have a: "\<exists>t pre post. VendorName (clean_row parse ?r) = PyStr t \<and> ?name = pre @ t @ post \<and>
                ws_run pre \<and> ws_run post \<and>
                (\<forall>w \<in> set whitespace. \<not> prefix w t \<and> \<not> suffix w t)"
    by blast
  from strip_spec [of ?desc] d
  have b: "\<exists>t pre post. Description (clean_row parse ?r) = PyStr t \<and> ?desc = pre @ t @ post \<and>
                ws_run pre \<and> ws_run post \<and>
                (\<forall>w \<in> set whitespace. \<not> prefix w t \<and> \<not> suffix w t)"
    by blast
  from a b v show ?thesis
    unfolding Let_def r' by (intro conjI)
qed

theorem clean_data_trims_and_coerces_witness:
  "(0::nat) < length [\<lparr>rows = [ex_row, ex_row_nbsp], metrics = None\<rparr>] \<and>
   (1::nat) < length (rows ([\<lparr>rows = [ex_row, ex_row_nbsp], metrics = None\<rparr>] ! 0)) \<and>
   map (\<lambda>r. (VendorName r, Volume r)) (rows ([\<lparr>rows = [ex_row, ex_row_nbsp], metrics = None\<rparr>] ! 0))
     = [(PyStr ''  Acme  '', Text ''abc''),
        (PyStr (''Acme'' @ [CHR 0xC2, CHR 0xA0]), Text ''inf'')] \<and>
   map (\<lambda>r. (VendorName r, Volume r))
     (rows (fst (clean_data ex_parse [\<lparr>rows = [ex_row, ex_row_nbsp], metrics = None\<rparr>] 0) !
            snd (clean_data ex_parse [\<lparr>rows = [ex_row, ex_row_nbsp], metrics = None\<rparr>] 0)))
     = [(PyStr ''Acme'', Num 0), (PyStr ''Acme'', PosInf)]"
proof -
  let ?h = "[\<lparr>rows = [ex_row, ex_row_nbsp], metrics = None\<rparr>]"
  let ?cd = "clean_data ex_parse ?h 0"
  let ?rs = "rows (fst ?cd ! snd ?cd)"
  have a: "(0::nat) < length ?h" by simp
  have b: "?cd = (fst ?cd, snd ?cd)" by simp
  have c0: "(0::nat) < length (rows (?h ! 0))" and c1: "(1::nat) < length (rows (?h ! 0))"
    by simp_all
  have l: "length ?rs = 2"
    by (simp add: clean_data_eq cleaned_def)
  have n: "map VendorName ?rs = [PyStr ''Acme'', PyStr ''Acme'']"
    by (simp add: clean_data_eq cleaned_def clean_row_def ex_row_def ex_row_nbsp_def
        fillna_obj_def astype_str_def strip_Acme strip_Acme_nbsp [simplified])
  from clean_data_trims_and_coerces [OF a b c0]
  have v0: "Volume (?rs ! 0) = Num 0"
    by (simp add: Let_def ex_row_def ex_parse_def)
  from clean_data_trims_and_coerces [OF a b c1]
  have v1: "Volume (?rs ! 1) = PosInf"
    by (simp add: Let_def ex_row_def ex_row_nbsp_def ex_parse_def)
  from l obtain x y where xy: "?rs = [x, y]"
    by (auto simp: length_Suc_conv numeral_2_eq_2)
  with n v0 v1 have "map (\<lambda>r. (VendorName r, Volume r)) ?rs
     = [(PyStr ''Acme'', Num 0), (PyStr ''Acme'', PosInf)]"
    by simp
  then show ?thesis
    by (simp add: ex_row_def ex_row_nbsp_def)
qed

subsection \<open>verify_and_create_tables\<close>

lemma same_name_refl: "same_name a a"
  by (simp add: same_name_def)

lemma has_table_member: "name \<in> existing_tables c \<Longrightarrow> has_table c name"
  unfolding has_table_def using same_name_refl by blast

lemma verify_cases:
  "verify_and_create_tables c =
     ((if ''product_prices'' \<in> existing_tables c then c else commit (create_product_prices c)),
      (if filter (\<lambda>t. t \<notin> existing_tables c) [''vendor_invoice'', ''purchases'', ''sales''] = []
       then Inr ()
       else Inl (Raise ''Exception'' (''Missing required tables: '' @
              join '', '' (filter (\<lambda>t. t \<notin> existing_tables c)
                             [''vendor_invoice'', ''purchases'', ''sales''])))))"
  by (simp add: verify_and_create_tables_def required_tables_def Let_def)

lemma create_product_prices_has: "has_table (create_product_prices c) ''product_prices''"
  by (simp add: create_product_prices_def has_table_def same_name_refl)

lemma has_table_commit: "has_table (commit c) name = has_table c name"
  by (simp add: has_table_def commit_def)

lemma verify_has_prices:
  "has_table (fst (verify_and_create_tables c)) ''product_prices''"
  by (simp add: verify_cases has_table_member has_table_commit create_product_prices_has)

lemma create_product_prices_idle:
  "has_table c ''product_prices'' \<Longrightarrow> create_product_prices c = c"
  by (simp add: create_product_prices_def)

lemma commit_commit: "commit (commit c) = commit c"
  by (simp add: commit_def)

lemma verify_twice:
  "verify_and_create_tables (fst (verify_and_create_tables c)) = verify_and_create_tables c"
proof (cases "''product_prices'' \<in> existing_tables c")
  case True
  then show ?thesis by (simp add: verify_cases)
next
  case False
  show ?thesis
  proof (cases "has_table c ''product_prices''")
    case True
    then have 1: "create_product_prices c = c" by (rule create_product_prices_idle)
    from True have "has_table (commit c) ''product_prices''" by (simp add: has_table_commit)
    then have 2: "create_product_prices (commit c) = commit c" by (rule create_product_prices_idle)
    have 3: "existing_tables (commit c) = existing_tables c" by (simp add: commit_def)
    from False show ?thesis
      by (simp add: verify_cases 1 2 3 commit_commit)
  next
    case False
    then show ?thesis
      by (simp add: verify_cases commit_def create_product_prices_def)
  qed
qed

text \<open>
  Claim C2, amended in the class of the exception. For every set of existing tables,
  \<open>verify_and_create_tables\<close> first sees to it that the store has a table
  product_prices: when the name is in the catalog the connection is unchanged; when no
  table has that name, in SQLite's comparison of names, the table is created, empty;
  when a table has the name in another spelling (Product_Prices) the statement creates
  nothing and the table keeps its rows; in both of the last cases the commit follows.
  The outcome is then decided by the tables of vendor_invoice, purchases, sales whose
  names are not in the catalog: if there is none the function returns normally,
  otherwise it raises Python's built-in \<open>Exception\<close> whose message is
  "Missing required tables: " followed by all of them, joined by ", ". The creation has
  happened also when the exception is raised. The witness has the tables vendor_invoice
  and purchases: product_prices is created and committed, and the message names exactly
  sales.
\<close>

theorem verify_and_create_tables_outcome:
  "let missing = filter (\<lambda>t. t \<notin> existing_tables c) [''vendor_invoice'', ''purchases'', ''sales''];
       (c', r) = verify_and_create_tables c
   in (''product_prices'' \<in> existing_tables c \<longrightarrow> c' = c) \<and>
      (''product_prices'' \<notin> existing_tables c \<longrightarrow>
         committed_tables c' = existing_tables c' \<and>
         (if has_table c ''product_prices''
          then existing_tables c' = existing_tables c \<and> product_prices c' = product_prices c
          else existing_tables c' = insert ''product_prices'' (existing_tables c) \<and>
               product_prices c' = [])) \<and>
      has_table c' ''product_prices'' \<and>
      r = (if missing = [] then Inr ()
           else Inl (Raise ''Exception''
                  (''Missing required tables: '' @ join '', '' missing)))"
proof -
  have h: "has_table (fst (verify_and_create_tables c)) ''product_prices''"
    by (rule verify_has_prices)
  show ?thesis
  proof (cases "''product_prices'' \<in> existing_tables c")
    case True
    with h show ?thesis
      by (simp add: verify_cases Let_def)
  next
    case False
    with h show ?thesis
      by (simp add: verify_cases Let_def commit_def create_product_prices_def)
  qed
qed

theorem verify_and_create_tables_outcome_witness:
  "snd (verify_and_create_tables (ex_conn\<lparr>existing_tables := {''vendor_invoice'', ''purchases''}\<rparr>))
     = Inl (Raise ''Exception'' ''Missing required tables: sales'') \<and>
   existing_tables
      (fst (verify_and_create_tables (ex_conn\<lparr>existing_tables := {''vendor_invoice'', ''purchases''}\<rparr>)))
     = {''product_prices'', ''vendor_invoice'', ''purchases''} \<and>
   committed_tables
      (fst (verify_and_create_tables (ex_conn\<lparr>existing_tables := {''vendor_invoice'', ''purchases''}\<rparr>)))
     = {''product_prices'', ''vendor_invoice'', ''purchases''} \<and>
   snd (verify_and_create_tables ex_conn) = Inr () \<and>
   existing_tables (fst (verify_and_create_tables
      (ex_conn\<lparr>existing_tables := {''Product_Prices'', ''sales''}\<rparr>)))
     = {''Product_Prices'', ''sales''}"
proof -
  have n: "''product_prices'' \<notin> {''vendor_invoice'', ''purchases''}"
    "''product_prices'' \<notin> {''Product_Prices'', ''sales''}"
    by simp_all
  have v: "has_table (ex_conn\<lparr>existing_tables := {''Product_Prices'', ''sales''}\<rparr>) ''product_prices''"
    by (simp add: has_table_def same_name_def ascii_lower_def)
  have w: "\<not> has_table (ex_conn\<lparr>existing_tables := {''vendor_invoice'', ''purchases''}\<rparr>) ''product_prices''"
    by (simp add: has_table_def same_name_def ascii_lower_def)
  show ?thesis
    using verify_and_create_tables_outcome [of "ex_conn\<lparr>existing_tables := {''vendor_invoice'', ''purchases''}\<rparr>"]
      verify_and_create_tables_outcome [of ex_conn]
      verify_and_create_tables_outcome [of "ex_conn\<lparr>existing_tables := {''Product_Prices'', ''sales''}\<rparr>"]
      v w
    by (simp add: Let_def split_beta ex_conn_def)
qed

text \<open>
  The exception that is raised on the tables vendor_invoice and purchases is an
  \<open>Exception\<close>, not a \<open>MissingTableError\<close>: the script defines no such class.
\<close>

theorem verify_and_create_tables_no_MissingTableError:
  "snd (verify_and_create_tables (ex_conn\<lparr>existing_tables := {''vendor_invoice'', ''purchases''}\<rparr>))
     = Inl (Raise ''Exception'' ''Missing required tables: sales'') \<and>
   snd (verify_and_create_tables (ex_conn\<lparr>existing_tables := {''vendor_invoice'', ''purchases''}\<rparr>))
     \<noteq> Inl (Raise ''MissingTableError'' ''Missing required tables: sales'')"
  by (simp add: verify_cases ex_conn_def)

subsection \<open>The summary query\<close>

lemma set_order_by_desc: "set (order_by_desc k rs) = set rs"
  by (simp add: order_by_desc_def)

lemma order_by_desc_sorted:
  "sorted_wrt (\<lambda>a b. k b \<le> k a) (order_by_desc k rs)"
proof -
  have "sorted (map k (sort_key k rs))" by (rule sorted_sort_key)
  then have "sorted_wrt (\<lambda>a b. k a \<le> k b) (sort_key k rs)" by (simp add: sorted_map)
  then show ?thesis by (simp add: order_by_desc_def sorted_wrt_rev)
qed

lemma create_vendor_summary_eq:
  "create_vendor_summary c h =
     (h @ [\<lparr>rows = summary_query (detect_product_column (table_columns c ''purchases'')) c,
            metrics = None\<rparr>], length h)"
  by (simp add: create_vendor_summary_def read_sql_query_def alloc_def Let_def)

lemma ex_summary:
  "summary_query None ex_conn =
     [\<lparr>VendorNumber = Num 2, VendorName = PyStr ''Bolt'', Brand = Num 20,
       Description = PyNone, PurchasePrice = Num 5, ActualPrice = Null, Volume = Null,
       TotalPurchaseQuantity = Some 4, TotalPurchaseDollars = Some 20,
       TotalSalesQuantity = None, TotalSalesDollars = None, FreightCost = None\<rparr>,
      \<lparr>VendorNumber = Num 1, VendorName = PyStr ''  Acme  '', Brand = Num 10,
       Description = PyStr ''Gin'', PurchasePrice = Num 2, ActualPrice = Null, Volume = Null,
       TotalPurchaseQuantity = Some 3, TotalPurchaseDollars = Some 6,
       TotalSalesQuantity = Some 2, TotalSalesDollars = Some 9, FreightCost = Some 4\<rparr>]"
  by (simp add: summary_query_def order_by_desc_def left_join_def PurchaseSummary_def
      SalesSummary_def FreightSummary_def group_by_def purchases_joined_def sql_sum_def
      sql_eq_def py_text_def ex_conn_def purchase_summary_row.extend_def)

lemma ex_conn_no_column: "detect_product_column (table_columns ex_conn ''purchases'') = None"
  by (simp add: detect_product_column_def candidates_def table_columns_def ex_conn_def)

text \<open>
  Claim C8. The rows of the DataFrame that \<open>create_vendor_summary\<close> returns are in
  descending order of TotalPurchaseDollars: every row's value is at least the value of
  each later row, and so of the next one. A NULL total counts as smaller than every
  number, as SQLite orders it, so the rows with a NULL total come last. Nothing is said
  about the order of rows with equal totals.
\<close>

theorem summary_ordered_by_purchase_dollars:
  assumes "create_vendor_summary c h = (h', df)"
  shows "sorted_wrt (\<lambda>a b. TotalPurchaseDollars b \<le> TotalPurchaseDollars a) (rows (h' ! df)) \<and>
         (\<forall>i. Suc i < length (rows (h' ! df)) \<longrightarrow>
            TotalPurchaseDollars (rows (h' ! df) ! Suc i) \<le> TotalPurchaseDollars (rows (h' ! df) ! i))"
proof -
  from assms have r: "rows (h' ! df) = summary_query (detect_product_column (table_columns c ''purchases'')) c"
    by (auto simp: create_vendor_summary_eq)
  have s: "sorted_wrt (\<lambda>a b. TotalPurchaseDollars b \<le> TotalPurchaseDollars a) (rows (h' ! df))"
    unfolding r summary_query_def by (rule order_by_desc_sorted)
  then have "\<forall>i. Suc i < length (rows (h' ! df)) \<longrightarrow>
            TotalPurchaseDollars (rows (h' ! df) ! Suc i) \<le> TotalPurchaseDollars (rows (h' ! df) ! i)"
    by (simp add: sorted_wrt_iff_nth_less)
  with s show ?thesis by simp
qed

theorem summary_ordered_by_purchase_dollars_witness:
  "sorted_wrt (\<lambda>a b. TotalPurchaseDollars b \<le> TotalPurchaseDollars a)
     (rows (fst (create_vendor_summary ex_conn []) ! snd (create_vendor_summary ex_conn []))) \<and>
   map TotalPurchaseDollars
     (rows (fst (create_vendor_summary ex_conn []) ! snd (create_vendor_summary ex_conn [])))
     = [Some 20, Some 6]"
proof -
  let ?cs = "create_vendor_summary ex_conn []"
  have b: "?cs = (fst ?cs, snd ?cs)" by simp
  have "map TotalPurchaseDollars (rows (fst ?cs ! snd ?cs)) = [Some 20, Some 6]"
    by (simp add: create_vendor_summary_eq ex_conn_no_column ex_summary)
  with summary_ordered_by_purchase_dollars [OF b] show ?thesis by simp
qed

lemma left_join_row:
  "(x, m) \<in> set (case filter P bs of [] \<Rightarrow> [(a, None)] | ms \<Rightarrow> map (\<lambda>b. (a, Some b)) ms) \<longleftrightarrow>
     x = a \<and> (case m of None \<Rightarrow> filter P bs = [] | Some b \<Rightarrow> b \<in> set (filter P bs))"
proof (cases "filter P bs")
  case Nil
  then show ?thesis by (cases m) auto
next
  case (Cons y ys)
  then show ?thesis by (cases m) auto
qed

lemma left_join_iff:
  "(a, m) \<in> set (left_join on as bs) \<longleftrightarrow>
     a \<in> set as \<and> (case m of None \<Rightarrow> filter (on a) bs = [] | Some b \<Rightarrow> b \<in> set (filter (on a) bs))"
  unfolding left_join_def set_concat set_map
  by (auto simp only: left_join_row)

lemma left_join_ex: "a \<in> set as \<Longrightarrow> \<exists>m. (a, m) \<in> set (left_join on as bs)"
proof -
  assume a: "a \<in> set as"
  show ?thesis
  proof (cases "filter (on a) bs")
    case Nil
    with a have "(a, None) \<in> set (left_join on as bs)"
      by (simp add: left_join_iff)
    then show ?thesis by blast
  next
    case (Cons b ms)
    with a have "(a, Some b) \<in> set (left_join on as bs)"
      by (simp add: left_join_iff)
    then show ?thesis by blast
  qed
qed

lemma left_join_mem:
  assumes "(a, m) \<in> set (left_join on as bs)"
  shows "a \<in> set as" and "m = None \<Longrightarrow> \<forall>b \<in> set bs. \<not> on a b"
    and "\<And>b. m = Some b \<Longrightarrow> b \<in> set bs \<and> on a b"
  using assms by (auto simp: left_join_iff filter_empty_conv)

lemma group_by_keys: "fst ` set (group_by key rs) = key ` set rs"
  by (force simp: group_by_def)

lemma group_by_mem:
  "(k, g) \<in> set (group_by key rs) \<Longrightarrow> k \<in> key ` set rs \<and> g = filter (\<lambda>r. key r = k) rs"
  by (auto simp: group_by_def)

lemma purchase_in_joined:
  assumes "p \<in> set (purchases c)"
  shows "\<exists>a v. (p, a, v) \<in> set (purchases_joined product_col c)"
proof -
  have n: "(p, Null, Null) \<in> set (map (\<lambda>p. (p, Null, Null)) (purchases c))"
    using assms by simp
  show ?thesis
  proof (cases product_col)
    case None
    with n show ?thesis by (auto simp: purchases_joined_def)
  next
    case (Some col)
    show ?thesis
    proof (cases "col = []")
      case True
      with Some n show ?thesis by (auto simp: purchases_joined_def)
    next
      case False
      let ?j = "left_join (\<lambda>p pp. sql_eq (Other p col) (ProductID pp)) (purchases c) (product_prices c)"
      from assms obtain m where m: "(p, m) \<in> set ?j"
        using left_join_ex by fastforce
      let ?f = "\<lambda>(p, m). case m of None \<Rightarrow> (p, Null, Null)
                     | Some pp \<Rightarrow> (p, Price pp, product_prices_row.Volume pp)"
      from m have "?f (p, m) \<in> ?f ` set ?j" by (rule imageI)
      then have "?f (p, m) \<in> set (map ?f ?j)" by (simp only: set_map)
      moreover have "\<exists>a v. ?f (p, m) = (p, a, v)" by (cases m) auto
      ultimately have "\<exists>a v. (p, a, v) \<in> set (map ?f ?j)" by metis
      moreover have "purchases_joined product_col c = map ?f ?j"
        using Some False by (simp add: purchases_joined_def)
      ultimately show ?thesis by (simp only:)
    qed
  qed
qed

lemma PurchaseSummary_covers:
  assumes "p \<in> set (purchases c)"
  shows "\<exists>ps \<in> set (PurchaseSummary product_col c).
           VendorNumber ps = purchases_row.VendorNumber p \<and> Brand ps = purchases_row.Brand p"
proof -
  let ?key = "\<lambda>(p, a, v). (purchases_row.VendorNumber p, purchases_row.VendorName p,
                    purchases_row.Brand p, purchases_row.Description p,
                    purchases_row.PurchasePrice p, a :: cell, v :: cell)"
  let ?g = "group_by ?key (purchases_joined product_col c)"
  from assms obtain a v where "(p, a, v) \<in> set (purchases_joined product_col c)"
    using purchase_in_joined by blast
  then have "?key (p, a, v) \<in> ?key ` set (purchases_joined product_col c)" by (rule imageI)
  then have "?key (p, a, v) \<in> fst ` set ?g" by (simp only: group_by_keys)
  then obtain g where "(?key (p, a, v), g) \<in> set ?g" by force
  then show ?thesis
    by (force simp: PurchaseSummary_def)
qed

lemma SalesSummary_mem:
  assumes "(n, b, q, d) \<in> set (SalesSummary c)"
  shows "\<exists>s \<in> set (sales c). VendorNo s = n \<and> sales_row.Brand s = b"
proof -
  from assms obtain g where "((n, b), g) \<in> set (group_by (\<lambda>s. (VendorNo s, sales_row.Brand s)) (sales c))"
    by (auto simp: SalesSummary_def)
  then have "(n, b) \<in> (\<lambda>s. (VendorNo s, sales_row.Brand s)) ` set (sales c)"
    using group_by_mem by fastforce
  then show ?thesis by auto
qed

lemma FreightSummary_mem:
  assumes "(n, f) \<in> set (FreightSummary c)"
  shows "\<exists>v \<in> set (vendor_invoice c). vendor_invoice_row.VendorNumber v = n"
proof -
  from assms obtain g where "(n, g) \<in> set (group_by vendor_invoice_row.VendorNumber (vendor_invoice c))"
    by (auto simp: FreightSummary_def)
  then have "n \<in> vendor_invoice_row.VendorNumber ` set (vendor_invoice c)"
    using group_by_mem by fastforce
  then show ?thesis by auto
qed

lemma summary_query_covers:
  assumes "ps \<in> set (PurchaseSummary product_col c)"
  shows "\<exists>r \<in> set (summary_query product_col c).
           VendorNumber r = VendorNumber ps \<and> Brand r = Brand ps \<and>
           ((\<forall>s \<in> set (sales c). \<not> (sql_eq (VendorNumber ps) (VendorNo s) \<and>
                                      sql_eq (Brand ps) (sales_row.Brand s))) \<longrightarrow>
              TotalSalesQuantity r = None \<and> TotalSalesDollars r = None) \<and>
           ((\<forall>v \<in> set (vendor_invoice c).
                \<not> sql_eq (VendorNumber ps) (vendor_invoice_row.VendorNumber v)) \<longrightarrow>
              FreightCost r = None)"
proof -
  let ?on1 = "\<lambda>ps (n, b, q :: rat option, d :: rat option).
                sql_eq (VendorNumber ps) n \<and> sql_eq (Brand ps) b"
  let ?j1 = "left_join ?on1 (PurchaseSummary product_col c) (SalesSummary c)"
  let ?on2 = "\<lambda>(ps, ss :: (cell \<times> cell \<times> rat option \<times> rat option) option) (n, f :: rat option).
                sql_eq (VendorNumber ps) n"
  let ?j2 = "left_join ?on2 ?j1 (FreightSummary c)"
  let ?f = "\<lambda>((ps, ss), fs).
               purchase_summary_row.extend ps
                 \<lparr>TotalSalesQuantity = (case ss of None \<Rightarrow> None | Some (n, b, q, d) \<Rightarrow> q),
                  TotalSalesDollars = (case ss of None \<Rightarrow> None | Some (n, b, q, d) \<Rightarrow> d),
                  FreightCost = (case fs of None \<Rightarrow> None | Some (n, f) \<Rightarrow> f)\<rparr>"
  from assms obtain ms where ms: "(ps, ms) \<in> set ?j1"
    using left_join_ex by fastforce
  then obtain mf where mf: "((ps, ms), mf) \<in> set ?j2"
    using left_join_ex by fastforce
  then have "?f ((ps, ms), mf) \<in> ?f ` set ?j2" by (rule imageI)
  then have mem: "?f ((ps, ms), mf) \<in> set (summary_query product_col c)"
    by (simp only: summary_query_def set_order_by_desc set_map)
  have k: "VendorNumber (?f ((ps, ms), mf)) = VendorNumber ps \<and> Brand (?f ((ps, ms), mf)) = Brand ps"
    by (simp add: purchase_summary_row.extend_def)
  have s: "(\<forall>s \<in> set (sales c). \<not> (sql_eq (VendorNumber ps) (VendorNo s) \<and>
                                      sql_eq (Brand ps) (sales_row.Brand s))) \<longrightarrow>
              TotalSalesQuantity (?f ((ps, ms), mf)) = None \<and>
              TotalSalesDollars (?f ((ps, ms), mf)) = None"
  proof
    assume no: "\<forall>s \<in> set (sales c). \<not> (sql_eq (VendorNumber ps) (VendorNo s) \<and>
                                      sql_eq (Brand ps) (sales_row.Brand s))"
    have "ms = None"
    proof (cases ms)
      case None
      then show ?thesis .
    next
      case (Some ss)
      obtain n b q d where ss: "ss = (n, b, q, d)" by (cases ss)
      from left_join_mem(3) [OF ms Some]
      have "(n, b, q, d) \<in> set (SalesSummary c)"
        and on: "sql_eq (VendorNumber ps) n \<and> sql_eq (Brand ps) b"
        by (simp_all add: ss)
      then obtain s where "s \<in> set (sales c)" "VendorNo s = n" "sales_row.Brand s = b"
        using SalesSummary_mem by blast
      with no on show ?thesis by blast
    qed
    then show "TotalSalesQuantity (?f ((ps, ms), mf)) = None \<and>
               TotalSalesDollars (?f ((ps, ms), mf)) = None"
      by (simp add: purchase_summary_row.extend_def)
  qed
  have f: "(\<forall>v \<in> set (vendor_invoice c).
                \<not> sql_eq (VendorNumber ps) (vendor_invoice_row.VendorNumber v)) \<longrightarrow>
              FreightCost (?f ((ps, ms), mf)) = None"
  proof
    assume no: "\<forall>v \<in> set (vendor_invoice c).
                \<not> sql_eq (VendorNumber ps) (vendor_invoice_row.VendorNumber v)"
    have "mf = None"
    proof (cases mf)
      case None
      then show ?thesis .
    next
      case (Some fs)
      obtain n fr where fs: "fs = (n, fr)" by (cases fs)
      from left_join_mem(3) [OF mf Some]
      have "(n, fr) \<in> set (FreightSummary c)" and on: "sql_eq (VendorNumber ps) n"
        by (simp_all add: fs)
      then obtain v where "v \<in> set (vendor_invoice c)" "vendor_invoice_row.VendorNumber v = n"
        using FreightSummary_mem by blast
      with no on show ?thesis by blast
    qed
    then show "FreightCost (?f ((ps, ms), mf)) = None"
      by (simp add: purchase_summary_row.extend_def)
  qed
  from mem k s f show ?thesis by blast
qed

lemma summary_query_from:
  assumes "r \<in> set (summary_query product_col c)"
  shows "\<exists>ps \<in> set (PurchaseSummary product_col c).
           ActualPrice r = ActualPrice ps \<and> Volume r = Volume ps"
proof -
  from assms obtain ps ms mf where
    r: "r = purchase_summary_row.extend ps
                 \<lparr>TotalSalesQuantity = (case ms of None \<Rightarrow> None | Some (n, b, q, d) \<Rightarrow> q),
                  TotalSalesDollars = (case ms of None \<Rightarrow> None | Some (n, b, q, d) \<Rightarrow> d),
                  FreightCost = (case mf of None \<Rightarrow> None | Some (n, f) \<Rightarrow> f)\<rparr>"
    and j: "((ps, ms), mf) \<in> set (left_join (\<lambda>(ps, ss) (n, f). sql_eq (VendorNumber ps) n)
             (left_join (\<lambda>ps (n, b, q, d). sql_eq (VendorNumber ps) n \<and> sql_eq (Brand ps) b)
                (PurchaseSummary product_col c) (SalesSummary c))
             (FreightSummary c))"
    by (auto simp: summary_query_def set_order_by_desc)
  from left_join_mem(1) [OF j] have "ps \<in> set (PurchaseSummary product_col c)"
    by (rule left_join_mem(1))
  moreover from r have "ActualPrice r = ActualPrice ps \<and> Volume r = Volume ps"
    by (simp add: purchase_summary_row.extend_def)
  ultimately show ?thesis by blast
qed

lemma PurchaseSummary_no_column:
  assumes "ps \<in> set (PurchaseSummary None c)"
  shows "ActualPrice ps = Null \<and> Volume ps = Null"
proof -
  let ?key = "\<lambda>(p, a, v). (purchases_row.VendorNumber p, purchases_row.VendorName p,
                    purchases_row.Brand p, purchases_row.Description p,
                    purchases_row.PurchasePrice p, a :: cell, v :: cell)"
  from assms obtain vn nm br ds pp a v g where
    ps: "ActualPrice ps = a" "Volume ps = v"
    and g: "((vn, nm, br, ds, pp, a, v), g) \<in> set (group_by ?key (purchases_joined None c))"
    by (auto simp: PurchaseSummary_def)
  from g have "(vn, nm, br, ds, pp, a, v) \<in> ?key ` set (purchases_joined None c)"
    using group_by_mem by fastforce
  then have "a = Null \<and> v = Null"
    by (auto simp: purchases_joined_def)
  with ps show ?thesis by simp
qed

lemma summary_query_ignores_prices:
  "summary_query None (c\<lparr>product_prices := pp\<rparr>) = summary_query None c"
  by (simp add: summary_query_def PurchaseSummary_def purchases_joined_def SalesSummary_def
      FreightSummary_def)

lemma pipeline_frames:
  assumes "create_vendor_summary c h = (h1, summary_df)"
    and "clean_data parse h1 summary_df = (h2, clean_df)"
  shows "h1 ! summary_df = summary_frame c"
    and "h2 ! summary_df = summary_frame c"
    and "h2 ! clean_df = cleaned parse (summary_frame c)"
proof -
  from assms(1) have s: "summary_df = length h" and h1: "h1 = h @ [summary_frame c]"
    by (auto simp: create_vendor_summary_eq summary_frame_def)
  then show 1: "h1 ! summary_df = summary_frame c" by simp
  from assms(2) have "h2 = h1 @ [cleaned parse (h1 ! summary_df)]" and "clean_df = length h1"
    by (auto simp: clean_data_eq)
  with 1 s h1 show "h2 ! summary_df = summary_frame c"
    and "h2 ! clean_df = cleaned parse (summary_frame c)"
    by (simp_all add: nth_append)
qed

text \<open>
  Claim C4. For every row \<open>p\<close> of purchases there is a row in the result of the query
  with the VendorNumber and the Brand of \<open>p\<close>, and the cleaned DataFrame has the row
  at the same position, with the key null-filled. If no sales row has the VendorNumber
  and Brand of \<open>p\<close>, the cleaned row has TotalSalesQuantity 0 and TotalSalesDollars 0;
  if no vendor_invoice row has the VendorNumber of \<open>p\<close>, it has FreightCost 0.
\<close>

theorem purchase_groups_kept:
  assumes "create_vendor_summary c h = (h1, summary_df)"
    and "clean_data parse h1 summary_df = (h2, clean_df)"
    and "p \<in> set (purchases c)"
  shows "\<exists>i < length (rows (h2 ! clean_df)).
           let raw = rows (h1 ! summary_df) ! i; r = rows (h2 ! clean_df) ! i
           in VendorNumber raw = purchases_row.VendorNumber p \<and>
              Brand raw = purchases_row.Brand p \<and>
              VendorNumber r = fillna_cell (purchases_row.VendorNumber p) \<and>
              Brand r = fillna_cell (purchases_row.Brand p) \<and>
              ((\<forall>s \<in> set (sales c). \<not> (sql_eq (purchases_row.VendorNumber p) (VendorNo s) \<and>
                                         sql_eq (purchases_row.Brand p) (sales_row.Brand s))) \<longrightarrow>
                 TotalSalesQuantity r = Some 0 \<and> TotalSalesDollars r = Some 0) \<and>
              ((\<forall>v \<in> set (vendor_invoice c).
                   \<not> sql_eq (purchases_row.VendorNumber p) (vendor_invoice_row.VendorNumber v)) \<longrightarrow>
                 FreightCost r = Some 0)"
proof -
  let ?q = "summary_query (detect_product_column (table_columns c ''purchases'')) c"
  have raw: "rows (h1 ! summary_df) = ?q"
    using pipeline_frames(1) [OF assms(1,2)] by (simp add: summary_frame_def)
  have cl: "rows (h2 ! clean_df) = map (clean_row parse) ?q"
    using pipeline_frames(3) [OF assms(1,2)] by (simp add: summary_frame_def cleaned_def)
  from PurchaseSummary_covers [OF assms(3)] obtain ps
    where ps: "ps \<in> set (PurchaseSummary (detect_product_column (table_columns c ''purchases'')) c)"
      and kv: "VendorNumber ps = purchases_row.VendorNumber p"
      and kb: "Brand ps = purchases_row.Brand p"
    by blast
  from summary_query_covers [OF ps] obtain r where r: "r \<in> set ?q"
    and rv: "VendorNumber r = VendorNumber ps" and rb: "Brand r = Brand ps"
    and rs: "(\<forall>s \<in> set (sales c). \<not> (sql_eq (VendorNumber ps) (VendorNo s) \<and>
                                      sql_eq (Brand ps) (sales_row.Brand s))) \<longrightarrow>
              TotalSalesQuantity r = None \<and> TotalSalesDollars r = None"
    and rf: "(\<forall>v \<in> set (vendor_invoice c).
                \<not> sql_eq (VendorNumber ps) (vendor_invoice_row.VendorNumber v)) \<longrightarrow>
              FreightCost r = None"
    by blast
  from r obtain i where i: "i < length ?q" and qi: "?q ! i = r"
    by (auto simp: in_set_conv_nth)
  have ci: "rows (h2 ! clean_df) ! i = clean_row parse r"
    using i qi by (simp add: cl)
  have c1: "VendorNumber (clean_row parse r) = fillna_cell (purchases_row.VendorNumber p)"
    and c2: "Brand (clean_row parse r) = fillna_cell (purchases_row.Brand p)"
    by (simp_all add: clean_row_def fillna_row_def rv rb kv kb)
  have c3: "(\<forall>s \<in> set (sales c). \<not> (sql_eq (purchases_row.VendorNumber p) (VendorNo s) \<and>
                                         sql_eq (purchases_row.Brand p) (sales_row.Brand s))) \<longrightarrow>
                 TotalSalesQuantity (clean_row parse r) = Some 0 \<and>
                 TotalSalesDollars (clean_row parse r) = Some 0"
    using rs by (simp add: clean_row_def fillna_row_def fillna_float_def kv kb)
  have c4: "(\<forall>v \<in> set (vendor_invoice c).
                   \<not> sql_eq (purchases_row.VendorNumber p) (vendor_invoice_row.VendorNumber v)) \<longrightarrow>
                 FreightCost (clean_row parse r) = Some 0"
    using rf by (simp add: clean_row_def fillna_row_def fillna_float_def kv)
  from i have il: "i < length (rows (h2 ! clean_df))" by (simp add: cl)
  have "let raw = rows (h1 ! summary_df) ! i; r = rows (h2 ! clean_df) ! i
           in VendorNumber raw = purchases_row.VendorNumber p \<and>
              Brand raw = purchases_row.Brand p \<and>
              VendorNumber r = fillna_cell (purchases_row.VendorNumber p) \<and>
              Brand r = fillna_cell (purchases_row.Brand p) \<and>
              ((\<forall>s \<in> set (sales c). \<not> (sql_eq (purchases_row.VendorNumber p) (VendorNo s) \<and>
                                         sql_eq (purchases_row.Brand p) (sales_row.Brand s))) \<longrightarrow>
                 TotalSalesQuantity r = Some 0 \<and> TotalSalesDollars r = Some 0) \<and>
              ((\<forall>v \<in> set (vendor_invoice c).
                   \<not> sql_eq (purchases_row.VendorNumber p) (vendor_invoice_row.VendorNumber v)) \<longrightarrow>
                 FreightCost r = Some 0)"
    unfolding Let_def raw ci qi using c1 c2 c3 c4 rv rb kv kb by simp
  with il show ?thesis by blast
qed

theorem purchase_groups_kept_witness:
  "purchases ex_conn ! 1 \<in> set (purchases ex_conn) \<and>
   (\<exists>i < length (rows (fst (clean_data (\<lambda>s. NaN) (fst (create_vendor_summary ex_conn []))
                   (snd (create_vendor_summary ex_conn []))) !
            snd (clean_data (\<lambda>s. NaN) (fst (create_vendor_summary ex_conn []))
                   (snd (create_vendor_summary ex_conn []))))).
      let r = rows (fst (clean_data (\<lambda>s. NaN) (fst (create_vendor_summary ex_conn []))
                   (snd (create_vendor_summary ex_conn []))) !
            snd (clean_data (\<lambda>s. NaN) (fst (create_vendor_summary ex_conn []))
                   (snd (create_vendor_summary ex_conn [])))) ! i
      in VendorNumber r = Num 2 \<and> Brand r = Num 20 \<and> TotalSalesQuantity r = Some 0 \<and>
         TotalSalesDollars r = Some 0 \<and> FreightCost r = Some 0)"
proof -
  let ?p = "\<lambda>s::string. NaN"
  let ?cs = "create_vendor_summary ex_conn []"
  let ?cd = "clean_data ?p (fst ?cs) (snd ?cs)"
  have b: "?cs = (fst ?cs, snd ?cs)" by simp
  have d: "?cd = (fst ?cd, snd ?cd)" by simp
  have m: "purchases ex_conn ! 1 \<in> set (purchases ex_conn)"
    by (simp add: ex_conn_def)
  have k: "purchases_row.VendorNumber (purchases ex_conn ! 1) = Num 2"
    "purchases_row.Brand (purchases ex_conn ! 1) = Num 20"
    by (simp_all add: ex_conn_def)
  have ns: "\<forall>s \<in> set (sales ex_conn). \<not> (sql_eq (Num 2) (VendorNo s) \<and> sql_eq (Num 20) (sales_row.Brand s))"
    by (simp add: ex_conn_def sql_eq_def)
  have nv: "\<forall>v \<in> set (vendor_invoice ex_conn). \<not> sql_eq (Num 2) (vendor_invoice_row.VendorNumber v)"
    by (simp add: ex_conn_def sql_eq_def)
  from purchase_groups_kept [OF b d m] ns nv
  have "\<exists>i < length (rows (fst ?cd ! snd ?cd)).
      let r = rows (fst ?cd ! snd ?cd) ! i
      in VendorNumber r = Num 2 \<and> Brand r = Num 20 \<and> TotalSalesQuantity r = Some 0 \<and>
         TotalSalesDollars r = Some 0 \<and> FreightCost r = Some 0"
    unfolding k Let_def by (auto simp: fillna_cell_def)
  with m show ?thesis by simp
qed

text \<open>
  Claim C5. When no product column is detected among the columns of purchases, the join
  clause of the query is empty and its select list has the literal
  \<open>NULL AS ActualPrice\<close> and \<open>NULL AS Volume\<close>; the result of the query is the same
  whatever product_prices holds; every row of the result has ActualPrice NULL and Volume
  NULL, and every row of the cleaned DataFrame has ActualPrice 0 and Volume 0.
\<close>

theorem no_product_column_no_enrichment:
  assumes "detect_product_column (table_columns c ''purchases'') = None"
    and "create_vendor_summary c h = (h1, summary_df)"
    and "clean_data parse h1 summary_df = (h2, clean_df)"
  shows "query_parts (detect_product_column (table_columns c ''purchases''))
           = ([], ''NULL AS ActualPrice'', ''NULL AS Volume'') \<and>
         (\<forall>pp. create_vendor_summary (c\<lparr>product_prices := pp\<rparr>) h = (h1, summary_df)) \<and>
         (\<forall>r \<in> set (rows (h1 ! summary_df)). ActualPrice r = Null \<and> Volume r = Null) \<and>
         (\<forall>r \<in> set (rows (h2 ! clean_df)). ActualPrice r = Num 0 \<and> Volume r = Num 0)"
proof -
  have raw: "rows (h1 ! summary_df) = summary_query None c"
    using pipeline_frames(1) [OF assms(2,3)] assms(1) by (simp add: summary_frame_def)
  have cl: "rows (h2 ! clean_df) = map (clean_row parse) (summary_query None c)"
    using pipeline_frames(3) [OF assms(2,3)] assms(1) by (simp add: summary_frame_def cleaned_def)
  have 1: "query_parts (detect_product_column (table_columns c ''purchases''))
           = ([], ''NULL AS ActualPrice'', ''NULL AS Volume'')"
    by (simp add: assms(1) query_parts_def)
  have 2: "\<forall>pp. create_vendor_summary (c\<lparr>product_prices := pp\<rparr>) h = (h1, summary_df)"
  proof
    fix pp
    have "table_columns (c\<lparr>product_prices := pp\<rparr>) ''purchases'' = table_columns c ''purchases''"
      by (simp add: table_columns_def)
    then have "create_vendor_summary (c\<lparr>product_prices := pp\<rparr>) h = create_vendor_summary c h"
      by (simp add: create_vendor_summary_eq assms(1) summary_query_ignores_prices)
    with assms(2) show "create_vendor_summary (c\<lparr>product_prices := pp\<rparr>) h = (h1, summary_df)"
      by simp
  qed
  have n: "\<forall>r \<in> set (summary_query None c). ActualPrice r = Null \<and> Volume r = Null"
  proof
    fix r assume "r \<in> set (summary_query None c)"
    then obtain ps where "ps \<in> set (PurchaseSummary None c)"
      and "ActualPrice r = ActualPrice ps \<and> Volume r = Volume ps"
      using summary_query_from by blast
    then show "ActualPrice r = Null \<and> Volume r = Null"
      using PurchaseSummary_no_column by simp
  qed
  then have 3: "\<forall>r \<in> set (rows (h1 ! summary_df)). ActualPrice r = Null \<and> Volume r = Null"
    by (simp only: raw)
  have 4: "\<forall>r \<in> set (rows (h2 ! clean_df)). ActualPrice r = Num 0 \<and> Volume r = Num 0"
    unfolding cl using n
    by (auto simp: clean_row_def fillna_row_def fillna_cell_def to_numeric_def
        fillna_f64_def cell_of_float_def)
  from 1 2 3 4 show ?thesis by blast
qed

theorem no_product_column_no_enrichment_witness:
  "detect_product_column (table_columns ex_conn ''purchases'') = None \<and>
   query_parts (detect_product_column (table_columns ex_conn ''purchases''))
     = ([], ''NULL AS ActualPrice'', ''NULL AS Volume'') \<and>
   map (\<lambda>r. (ActualPrice r, Volume r))
     (rows (fst (clean_data (\<lambda>s. NaN) (fst (create_vendor_summary ex_conn []))
                   (snd (create_vendor_summary ex_conn []))) !
            snd (clean_data (\<lambda>s. NaN) (fst (create_vendor_summary ex_conn []))
                   (snd (create_vendor_summary ex_conn [])))))
     = [(Num 0, Num 0), (Num 0, Num 0)]"
proof -
  let ?p = "\<lambda>s::string. NaN"
  let ?cs = "create_vendor_summary ex_conn []"
  let ?cd = "clean_data ?p (fst ?cs) (snd ?cs)"
  have b: "?cs = (fst ?cs, snd ?cs)" by simp
  have d: "?cd = (fst ?cd, snd ?cd)" by simp
  from no_product_column_no_enrichment [OF ex_conn_no_column b d]
  have q: "query_parts (detect_product_column (table_columns ex_conn ''purchases''))
     = ([], ''NULL AS ActualPrice'', ''NULL AS Volume'')"
    and z: "\<forall>r \<in> set (rows (fst ?cd ! snd ?cd)). ActualPrice r = Num 0 \<and> Volume r = Num 0"
    by blast+
  have "length (rows (fst ?cd ! snd ?cd)) = 2"
    by (simp add: pipeline_frames(3) [OF b d] cleaned_def summary_frame_def
        ex_conn_no_column ex_summary)
  then obtain x y where xy: "rows (fst ?cd ! snd ?cd) = [x, y]"
    by (auto simp: length_Suc_conv numeral_2_eq_2)
  with z have "map (\<lambda>r. (ActualPrice r, Volume r)) (rows (fst ?cd ! snd ?cd))
     = [(Num 0, Num 0), (Num 0, Num 0)]"
    by simp
  with q ex_conn_no_column show ?thesis by simp
qed

subsection \<open>The whole run\<close>

lemma main_eq:
  "main parse c =
     (case verify_and_create_tables c of
        (c1, Inl e) \<Rightarrow> (c1, Inl e)
      | (c1, Inr u) \<Rightarrow>
          (commit (c1\<lparr>existing_tables := insert ''vendor_sales_summary'' (existing_tables c1),
                     stored_frames := (stored_frames c1)
                       (''vendor_sales_summary'' \<mapsto> cleaned parse (summary_frame c1))\<rparr>),
           Inr ()))"
  by (simp add: main_def create_vendor_summary_eq clean_data_eq ingest_db_def summary_frame_def
      split: prod.splits sum.splits)

lemma purchases_joined_cong:
  assumes "purchases c' = purchases c" and "product_prices c' = product_prices c"
  shows "purchases_joined product_col c' = purchases_joined product_col c"
proof (cases product_col)
  case None
  with assms show ?thesis by (simp add: purchases_joined_def)
next
  case (Some col)
  with assms show ?thesis by (cases "col = []") (simp_all add: purchases_joined_def)
qed

lemma summary_query_cong:
  assumes "purchases c' = purchases c" and "product_prices c' = product_prices c"
    and "sales c' = sales c" and "vendor_invoice c' = vendor_invoice c"
  shows "summary_query product_col c' = summary_query product_col c"
proof -
  have "PurchaseSummary product_col c' = PurchaseSummary product_col c"
    by (simp only: PurchaseSummary_def purchases_joined_cong [OF assms(1,2)])
  moreover have "SalesSummary c' = SalesSummary c"
    by (simp only: SalesSummary_def assms(3))
  moreover have "FreightSummary c' = FreightSummary c"
    by (simp only: FreightSummary_def assms(4))
  ultimately show ?thesis by (simp only: summary_query_def)
qed

lemma summary_frame_cong:
  assumes "purchases c' = purchases c" and "product_prices c' = product_prices c"
    and "sales c' = sales c" and "vendor_invoice c' = vendor_invoice c"
    and "table_info c' = table_info c"
  shows "summary_frame c' = summary_frame c"
  by (simp only: summary_frame_def table_columns_def assms(5) summary_query_cong [OF assms(1-4)])

lemma summary_frame_catalog:
  "summary_frame (commit (c\<lparr>existing_tables := e, stored_frames := s\<rparr>)) = summary_frame c"
  by (rule summary_frame_cong) (simp_all add: commit_def)

text \<open>
  Claim C7. Running the script a second time, on the connection the first run has left,
  gives the same connection and the same outcome as the first run: in particular the
  table vendor_sales_summary holds the same rows with the same values in the same order.
  After a successful run that table is the cleaned summary of the base tables, whatever
  was stored under the name before: \<open>to_sql\<close> replaces the table.
\<close>

theorem main_twice_same_table:
  "main parse (fst (main parse c)) = main parse c \<and>
   (snd (main parse c) = Inr () \<longrightarrow>
      stored_frames (fst (main parse c)) ''vendor_sales_summary''
        = Some (cleaned parse (summary_frame (fst (verify_and_create_tables c)))) \<and>
      stored_frames (fst (main parse (fst (main parse c)))) ''vendor_sales_summary''
        = stored_frames (fst (main parse c)) ''vendor_sales_summary'')"
proof -
  obtain c1 r where v: "verify_and_create_tables c = (c1, r)" by (cases "verify_and_create_tables c")
  have v1: "verify_and_create_tables c1 = (c1, r)"
    using verify_twice [of c] v by simp
  have idem: "main parse (fst (main parse c)) = main parse c"
  proof (cases r)
    case (Inl e)
    with v v1 show ?thesis by (simp add: main_eq)
  next
    case (Inr u)
    let ?c2 = "commit (c1\<lparr>existing_tables := insert ''vendor_sales_summary'' (existing_tables c1),
                     stored_frames := (stored_frames c1)
                       (''vendor_sales_summary'' \<mapsto> cleaned parse (summary_frame c1))\<rparr>)"
    from v Inr have m: "main parse c = (?c2, Inr ())" by (simp add: main_eq)
    from v1 Inr have ok: "filter (\<lambda>t. t \<notin> existing_tables c1) [''vendor_invoice'', ''purchases'', ''sales''] = []"
      by (auto simp: verify_cases split: if_splits)
    have "has_table c1 ''product_prices''"
      using verify_has_prices [of c] v by simp
    then have "has_table ?c2 ''product_prices''"
      by (auto simp: has_table_def commit_def)
    then have cr: "create_product_prices ?c2 = ?c2"
      by (rule create_product_prices_idle)
    have cc: "commit ?c2 = ?c2"
      by (rule commit_commit)
    from ok have mem: "''vendor_invoice'' \<in> existing_tables c1"
      "''purchases'' \<in> existing_tables c1" "''sales'' \<in> existing_tables c1"
      by (auto split: if_splits)
    have ok2: "filter (\<lambda>t. t \<notin> existing_tables ?c2) [''vendor_invoice'', ''purchases'', ''sales''] = []"
      using mem by (simp add: commit_def)
    have st: "(if ''product_prices'' \<in> existing_tables ?c2 then ?c2
               else commit (create_product_prices ?c2)) = ?c2"
      by (simp only: cr cc if_cancel)
    have v2: "verify_and_create_tables ?c2 = (?c2, Inr ())"
      by (subst verify_cases) (simp only: st ok2 refl if_True)
    have f2: "summary_frame ?c2 = summary_frame c1"
      by (simp only: summary_frame_catalog)
    have "main parse ?c2 = (?c2, Inr ())"
      by (simp add: main_eq [of parse ?c2] v2 f2) (simp add: commit_def insert_absorb)
    with m show ?thesis by simp
  qed
  have st: "snd (main parse c) = Inr () \<longrightarrow>
      stored_frames (fst (main parse c)) ''vendor_sales_summary''
        = Some (cleaned parse (summary_frame (fst (verify_and_create_tables c))))"
    using v by (cases r) (simp_all add: main_eq commit_def)
  from idem st show ?thesis by simp
qed

theorem main_twice_same_table_witness:
  "snd (main (\<lambda>s. NaN) ex_conn) = Inr () \<and>
   main (\<lambda>s. NaN) (fst (main (\<lambda>s. NaN) ex_conn)) = main (\<lambda>s. NaN) ex_conn \<and>
   stored_frames (fst (main (\<lambda>s. NaN) (fst (main (\<lambda>s. NaN) ex_conn)))) ''vendor_sales_summary''
     = stored_frames (fst (main (\<lambda>s. NaN) ex_conn)) ''vendor_sales_summary'' \<and>
   map_option (\<lambda>d. map VendorName (rows d))
     (stored_frames (fst (main (\<lambda>s. NaN) ex_conn)) ''vendor_sales_summary'')
     = Some [PyStr ''Bolt'', PyStr ''Acme'']"
proof -
  let ?p = "\<lambda>s::string. NaN"
  have ok: "snd (main ?p ex_conn) = Inr ()"
    by (simp add: main_eq verify_cases ex_conn_def)
  have c: "detect_product_column (table_columns (fst (verify_and_create_tables ex_conn)) ''purchases'') = None"
    by (simp add: verify_cases detect_product_column_def candidates_def table_columns_def
        ex_conn_def commit_def create_product_prices_def)
  have q: "summary_query None (fst (verify_and_create_tables ex_conn)) = summary_query None ex_conn"
    by (rule summary_query_cong)
      (simp_all add: verify_cases ex_conn_def commit_def create_product_prices_def)
  have n: "map VendorName (rows (cleaned ?p (summary_frame (fst (verify_and_create_tables ex_conn)))))
     = [PyStr ''Bolt'', PyStr ''Acme'']"
    by (simp add: cleaned_def summary_frame_def c q ex_summary clean_row_def fillna_obj_def
        astype_str_def strip_Bolt strip_Acme)
  from main_twice_same_table [of ?p ex_conn] ok n show ?thesis by simp
qed

end
